theory Spec2Isabelle
  imports Complex_Main "HOL-Library.Multiset"
begin

section \<open>Python values and helpers\<close>

text \<open>
  The push payload is a decoded JSON document (\<^verbatim>\<open>dict[str, Any]\<close>). A Python dict is an
  association list in insertion order, read with \<open>map_of\<close>. Python's \<^verbatim>\<open>None\<close> is \<open>JNull\<close>.
  Time stamps (\<^verbatim>\<open>time.time()\<close>) are real numbers of seconds since the epoch.
\<close>

datatype json =
    JNull
  | JBool bool
  | JNum real
  | JStr string
  | JArr "json list"
  | JObj "(string \<times> json) list"

datatype py_exn = AttributeError | TypeError | KeyError

datatype log_level = DEBUG | INFO | WARNING | ERROR

text \<open>Python truthiness (\<^verbatim>\<open>if x:\<close>, \<^verbatim>\<open>not x\<close>).\<close>

fun truthy :: "json \<Rightarrow> bool" where
  "truthy JNull = False"
| "truthy (JBool b) = b"
| "truthy (JNum r) = (r \<noteq> 0)"
| "truthy (JStr s) = (s \<noteq> [])"
| "truthy (JArr xs) = (xs \<noteq> [])"
| "truthy (JObj kvs) = (kvs \<noteq> [])"

text \<open>\<^verbatim>\<open>d.get(k, default)\<close> on a dict.\<close>

definition dict_get :: "(string \<times> json) list \<Rightarrow> string \<Rightarrow> json \<Rightarrow> json" where
  "dict_get d k dflt = (case map_of d k of Some v \<Rightarrow> v | None \<Rightarrow> dflt)"

text \<open>\<^verbatim>\<open>isinstance(x, dict)\<close> and \<^verbatim>\<open>x.get(k)\<close> on a value already known to be a dict.\<close>

fun is_dict :: "json \<Rightarrow> bool" where
  "is_dict (JObj _) = True"
| "is_dict _ = False"

fun jget :: "json \<Rightarrow> string \<Rightarrow> json" where
  "jget (JObj kvs) k = dict_get kvs k JNull"
| "jget _ k = JNull"

text \<open>\<^verbatim>\<open>a or b\<close>.\<close>

definition py_or :: "json \<Rightarrow> json \<Rightarrow> json" where
  "py_or a b = (if truthy a then a else b)"

text \<open>\<^verbatim>\<open>str.lower()\<close>, on the ASCII letters.\<close>

definition lower_char :: "char \<Rightarrow> char" where
  "lower_char c =
     (case map_of (zip ''ABCDEFGHIJKLMNOPQRSTUVWXYZ'' ''abcdefghijklmnopqrstuvwxyz'') c of
        Some l \<Rightarrow> l
      | None \<Rightarrow> c)"

definition lower :: "string \<Rightarrow> string" where
  "lower s = map lower_char s"

text \<open>\<^verbatim>\<open>s.endswith(suf)\<close> and \<^verbatim>\<open>sub in s\<close> on strings.\<close>

definition endswith :: "string \<Rightarrow> string \<Rightarrow> bool" where
  "endswith s suf = (length suf \<le> length s \<and> drop (length s - length suf) s = suf)"

fun str_contains :: "string \<Rightarrow> string \<Rightarrow> bool" where
  "str_contains sub [] = (sub = [])"
| "str_contains sub (c # cs) = (take (length sub) (c # cs) = sub \<or> str_contains sub cs)"

section \<open>Data model\<close>

text \<open>
  Modelled from the spec: the classes \<^verbatim>\<open>Space\<close>, \<^verbatim>\<open>Device\<close> and \<^verbatim>\<open>SecurityState\<close>
  of the models module, which is not among the sources at hand. The records hold the
  fields that the manager reads and writes (the specification's data model names the same
  ones). A \<^verbatim>\<open>SecurityState\<close> enum member is identified by its \<^verbatim>\<open>.value\<close> string; a
  member is always truthy. A space's devices are a dict from device id to device, kept
  here in iteration order.
\<close>

type_synonym security_state = string

datatype attr_value = ABool bool | AStr string

record device =
  dev_id :: string
  dev_name :: string
  online :: bool
  attributes :: "string \<rightharpoonup> attr_value"

record space =
  hub_id :: string
  space_name :: string
  security_state :: security_state
  devices :: "(string \<times> device) list"

text \<open>
  What the manager imports from modules outside the sources at hand, and the collaborators
  it calls, taken as parameters: the category tables of \<^verbatim>\<open>sqs_manager\<close> (dicts from
  tag to state, or to a pair of action key and flag; \<^verbatim>\<open>SCENARIO_EVENTS\<close> is used for
  membership only), \<^verbatim>\<open>parse_event_code\<close> of \<^verbatim>\<open>event_codes\<close> (a dict of strings or
  \<^verbatim>\<open>None\<close>), the coordinator's \<^verbatim>\<open>get_pending_ha_action\<close>, and Python's \<^verbatim>\<open>str()\<close>
  of a value that is not a string (used by the f-string of the event key).
\<close>

record deps =
  EVENT_TAG_TO_STATE :: "(string \<times> security_state) list"
  DOOR_EVENTS :: "(string \<times> string \<times> bool) list"
  MOTION_EVENTS :: "(string \<times> string \<times> bool) list"
  SMOKE_EVENTS :: "(string \<times> string \<times> bool) list"
  FLOOD_EVENTS :: "(string \<times> string \<times> bool) list"
  GLASS_EVENTS :: "(string \<times> string \<times> bool) list"
  TAMPER_EVENTS :: "(string \<times> string \<times> bool) list"
  DEVICE_STATUS_EVENTS :: "(string \<times> string \<times> bool) list"
  RELAY_EVENTS :: "(string \<times> string \<times> bool) list"
  SCENARIO_EVENTS :: "string list"
  parse_event_code :: "json \<Rightarrow> (string \<times> string) list option"
  get_pending_ha_action :: "string \<Rightarrow> bool"
  py_str :: "json \<Rightarrow> string"

text \<open>
  The clock readings of one call of the handler: \<^verbatim>\<open>time.time()\<close> at the deduplication
  step, \<^verbatim>\<open>time.time()\<close> in the security handler, and
  \<^verbatim>\<open>datetime.now(timezone.utc).isoformat()\<close> in the door and motion handlers.
\<close>

record clock =
  now :: real
  now_mark :: real
  now_iso :: string

text \<open>
  Everything the handler does besides changing the model: log lines (level and message
  format), the notification task, the refresh task, the coordinator update and the
  scenario bus event.
\<close>

datatype effect =
    Log log_level string
  | Create_notification string json string
  | Request_refresh
  | Set_updated_data
  | Fire_scenario json json json string string

text \<open>
  The manager's own fields together with the coordinator's spaces
  (\<^verbatim>\<open>coordinator.account.spaces\<close>, a dict from space id to space object).
\<close>

record sse_state =
  spaces :: "(string \<times> space) list"
  last_state_update :: "string \<rightharpoonup> real"
  recent_events :: "string \<rightharpoonup> real"
  dedup_window :: real

text \<open>\<^verbatim>\<open>SSEManager.__init__\<close>: empty caches, a window of 5 seconds.\<close>

definition init_state :: "(string \<times> space) list \<Rightarrow> sse_state" where
  "init_state sps =
     \<lparr>spaces = sps, last_state_update = Map.empty, recent_events = Map.empty, dedup_window = 5\<rparr>"

section \<open>Protection tracker\<close>

text \<open>\<^verbatim>\<open>is_state_protected\<close>; \<open>t\<close> is its reading of \<^verbatim>\<open>time.time()\<close>.\<close>

definition is_state_protected :: "sse_state \<Rightarrow> string \<Rightarrow> real \<Rightarrow> bool" where
  "is_state_protected st hub t =
     (let last_update = (case last_state_update st hub of Some v \<Rightarrow> v | None \<Rightarrow> 0)
      in t - last_update < 5)"

section \<open>Device resolution\<close>

text \<open>
  \<^verbatim>\<open>_find_device\<close>. The result is the device together with the key under which the
  space holds it, which is where the handlers' in-place writes land. A source id that is
  truthy and not a string raises: a list or dict is unhashable in
  \<^verbatim>\<open>source_id in space.devices\<close>, a number or \<^verbatim>\<open>True\<close> is no key of the dict and then
  has no \<^verbatim>\<open>len()\<close>. The debug line logged on a suffix match is not recorded.
\<close>

definition find_device ::
  "space \<Rightarrow> json \<Rightarrow> json \<Rightarrow> py_exn + (string \<times> device) option" where
  "find_device space source_name source_id =
     (case (if truthy source_id then
              (case source_id of
                 JStr sid \<Rightarrow>
                   (case map_of (devices space) sid of
                      Some d \<Rightarrow> Inr (Some (sid, d))
                    | None \<Rightarrow>
                        if length sid = 8 then
                          Inr (find (\<lambda>(k, d). length (dev_id d) = 16 \<and> endswith (dev_id d) sid)
                                 (devices space))
                        else Inr None)
               | _ \<Rightarrow> Inl TypeError)
            else Inr None) of
        Inl e \<Rightarrow> Inl e
      | Inr (Some r) \<Rightarrow> Inr (Some r)
      | Inr None \<Rightarrow>
          if truthy source_name then
            Inr (find (\<lambda>(k, d). JStr (dev_name d) = source_name) (devices space))
          else Inr None)"

text \<open>Writing back a device object that was changed in place.\<close>

definition put_device :: "space \<Rightarrow> string \<Rightarrow> device \<Rightarrow> space" where
  "put_device space k dev =
     space\<lparr>devices := map (\<lambda>(k', d). if k' = k then (k', dev) else (k', d)) (devices space)\<rparr>"

definition set_attr :: "device \<Rightarrow> string \<Rightarrow> attr_value \<Rightarrow> device" where
  "set_attr dev a v = dev\<lparr>attributes := (attributes dev)(a \<mapsto> v)\<rparr>"

section \<open>Category handlers\<close>

text \<open>
  Each handler receives the space object and returns it as changed, with the effects it
  issued, or the exception it raised (a failed table subscript or one of
  \<open>find_device\<close>; both come before any write). Only the security handler touches
  the manager's own fields, so it alone takes and returns \<^verbatim>\<open>_last_state_update\<close>.
\<close>

text \<open>\<^verbatim>\<open>_handle_security_event\<close>.\<close>

definition handle_security_event ::
  "deps \<Rightarrow> clock \<Rightarrow> (string \<rightharpoonup> real) \<Rightarrow> space \<Rightarrow> string \<Rightarrow> json
     \<Rightarrow> (string \<rightharpoonup> real) \<times> space \<times> effect list" where
  "handle_security_event deps clk lsu space event_tag source_name =
     (case map_of (EVENT_TAG_TO_STATE deps) event_tag of
        None \<Rightarrow> (lsu, space, [])
      | Some new_state \<Rightarrow>
          let old_state = security_state space;
              state_changed = (old_state \<noteq> new_state);
              source_name' = (if get_pending_ha_action deps (hub_id space)
                              then JStr ''Home Assistant'' else source_name);
              is_group_event = (event_tag = ''grouparm'' \<or> event_tag = ''groupdisarm'');
              group_effs = (if is_group_event
                            then [Log DEBUG ''SSE: Group event %s detected, scheduling refresh for actual state'',
                                  Request_refresh]
                            else []);
              space' = (if state_changed \<and> \<not> is_group_event
                        then space\<lparr>security_state := new_state\<rparr> else space);
              lsu' = (if state_changed \<and> \<not> is_group_event
                      then lsu(hub_id space \<mapsto> now_mark clk) else lsu)
          in (lsu', space',
              [Log INFO ''SSE security: tag=%s, old=%s, new=%s, changed=%s''] @ group_effs @
              [Log INFO ''SSE instant: %s -> %s par %s (state_changed=%s)'',
               Create_notification new_state source_name' (space_name space)]))"

text \<open>\<^verbatim>\<open>_handle_door_event\<close>.\<close>

definition handle_door_event ::
  "deps \<Rightarrow> clock \<Rightarrow> space \<Rightarrow> string \<Rightarrow> json \<Rightarrow> json \<Rightarrow> string
     \<Rightarrow> py_exn + space \<times> effect list" where
  "handle_door_event deps clk space event_tag source_name source_id transition =
     (case map_of (DOOR_EVENTS deps) event_tag of
        None \<Rightarrow> Inl KeyError
      | Some (action_key, is_triggered0) \<Rightarrow>
          let is_triggered = (if transition = ''RECOVERED'' then False
                              else if transition = ''TRIGGERED'' then True
                              else is_triggered0)
          in (case find_device space source_name source_id of
                Inl e \<Rightarrow> Inl e
              | Inr (Some (k, dev)) \<Rightarrow>
                  Inr (put_device space k
                         (set_attr (set_attr dev ''door_opened'' (ABool is_triggered))
                            ''door_opened_at'' (AStr (now_iso clk))),
                       [Log INFO ''SSE instant: %s -> %s''])
              | Inr None \<Rightarrow>
                  Inr (space, [Log WARNING ''SSE: Door device not found: name=%s, id=%s''])))"

text \<open>\<^verbatim>\<open>_handle_motion_event\<close>.\<close>

definition handle_motion_event ::
  "deps \<Rightarrow> clock \<Rightarrow> space \<Rightarrow> string \<Rightarrow> json \<Rightarrow> json \<Rightarrow> py_exn + space \<times> effect list" where
  "handle_motion_event deps clk space event_tag source_name source_id =
     (case map_of (MOTION_EVENTS deps) event_tag of
        None \<Rightarrow> Inl KeyError
      | Some (action_key, is_triggered) \<Rightarrow>
          (case find_device space source_name source_id of
             Inl e \<Rightarrow> Inl e
           | Inr (Some (k, dev)) \<Rightarrow>
               Inr (put_device space k
                      (set_attr (set_attr dev ''motion_detected'' (ABool is_triggered))
                         ''motion_detected_at'' (AStr (now_iso clk))),
                    [Log INFO ''SSE instant: %s -> %s''])
           | Inr None \<Rightarrow>
               Inr (space, [Log WARNING ''SSE: Motion device not found: name=%s, id=%s''])))"

text \<open>\<^verbatim>\<open>_handle_smoke_event\<close>.\<close>

definition handle_smoke_event ::
  "deps \<Rightarrow> space \<Rightarrow> string \<Rightarrow> json \<Rightarrow> json \<Rightarrow> py_exn + space \<times> effect list" where
  "handle_smoke_event deps space event_tag source_name source_id =
     (case map_of (SMOKE_EVENTS deps) event_tag of
        None \<Rightarrow> Inl KeyError
      | Some (action_key, is_triggered) \<Rightarrow>
          (case find_device space source_name source_id of
             Inl e \<Rightarrow> Inl e
           | Inr (Some (k, dev)) \<Rightarrow>
               Inr (put_device space k
                      (if str_contains ''smoke'' action_key
                       then set_attr dev ''smoke_detected'' (ABool is_triggered)
                       else if str_contains ''temp'' action_key
                       then set_attr dev ''temperature_alert'' (ABool is_triggered)
                       else if str_contains ''co'' action_key
                       then set_attr dev ''co_detected'' (ABool is_triggered)
                       else dev),
                    [Log INFO ''SSE instant: %s -> %s''])
           | Inr None \<Rightarrow>
               Inr (space, [Log WARNING ''SSE: Smoke device not found: name=%s, id=%s''])))"

text \<open>\<^verbatim>\<open>_handle_flood_event\<close>.\<close>

definition handle_flood_event ::
  "deps \<Rightarrow> space \<Rightarrow> string \<Rightarrow> json \<Rightarrow> json \<Rightarrow> py_exn + space \<times> effect list" where
  "handle_flood_event deps space event_tag source_name source_id =
     (case map_of (FLOOD_EVENTS deps) event_tag of
        None \<Rightarrow> Inl KeyError
      | Some (action_key, is_triggered) \<Rightarrow>
          (case find_device space source_name source_id of
             Inl e \<Rightarrow> Inl e
           | Inr (Some (k, dev)) \<Rightarrow>
               Inr (put_device space k (set_attr dev ''leak_detected'' (ABool is_triggered)),
                    [Log INFO ''SSE instant: %s -> %s''])
           | Inr None \<Rightarrow>
               Inr (space, [Log WARNING ''SSE: Flood device not found: name=%s, id=%s''])))"

text \<open>\<^verbatim>\<open>_handle_glass_event\<close>.\<close>

definition handle_glass_event ::
  "deps \<Rightarrow> space \<Rightarrow> string \<Rightarrow> json \<Rightarrow> json \<Rightarrow> py_exn + space \<times> effect list" where
  "handle_glass_event deps space event_tag source_name source_id =
     (case map_of (GLASS_EVENTS deps) event_tag of
        None \<Rightarrow> Inl KeyError
      | Some (action_key, is_triggered) \<Rightarrow>
          (case find_device space source_name source_id of
             Inl e \<Rightarrow> Inl e
           | Inr (Some (k, dev)) \<Rightarrow>
               Inr (put_device space k
                      (set_attr dev ''glass_break_detected'' (ABool is_triggered)),
                    [Log INFO ''SSE instant: %s -> %s''])
           | Inr None \<Rightarrow>
               Inr (space, [Log WARNING ''SSE: Glass device not found: name=%s, id=%s''])))"

text \<open>\<^verbatim>\<open>_handle_tamper_event\<close>.\<close>

definition handle_tamper_event ::
  "deps \<Rightarrow> space \<Rightarrow> string \<Rightarrow> json \<Rightarrow> json \<Rightarrow> string \<Rightarrow> py_exn + space \<times> effect list" where
  "handle_tamper_event deps space event_tag source_name source_id transition =
     (case map_of (TAMPER_EVENTS deps) event_tag of
        None \<Rightarrow> Inl KeyError
      | Some (action_key, is_triggered0) \<Rightarrow>
          let is_triggered = (if transition = ''RECOVERED'' then False
                              else if transition = ''TRIGGERED'' then True
                              else is_triggered0)
          in (case find_device space source_name source_id of
                Inl e \<Rightarrow> Inl e
              | Inr (Some (k, dev)) \<Rightarrow>
                  Inr (put_device space k (set_attr dev ''tampered'' (ABool is_triggered)),
                       [Log INFO ''SSE instant: %s -> %s (transition=%s)''])
              | Inr None \<Rightarrow>
                  Inr (space, [Log WARNING ''SSE: Device not found for tamper: name=%s, id=%s''])))"

text \<open>\<^verbatim>\<open>_handle_device_status_event\<close>.\<close>

definition handle_device_status_event ::
  "deps \<Rightarrow> space \<Rightarrow> string \<Rightarrow> json \<Rightarrow> json \<Rightarrow> py_exn + space \<times> effect list" where
  "handle_device_status_event deps space event_tag source_name source_id =
     (case map_of (DEVICE_STATUS_EVENTS deps) event_tag of
        None \<Rightarrow> Inl KeyError
      | Some (action_key, is_problem) \<Rightarrow>
          (case find_device space source_name source_id of
             Inl e \<Rightarrow> Inl e
           | Inr (Some (k, dev)) \<Rightarrow>
               Inr (put_device space k
                      (if str_contains ''online'' action_key \<or> str_contains ''offline'' action_key
                       then dev\<lparr>online := \<not> is_problem\<rparr>
                       else if str_contains ''battery'' action_key
                       then set_attr dev ''low_battery'' (ABool is_problem)
                       else if str_contains ''power'' action_key
                       then set_attr dev ''external_power_lost'' (ABool is_problem)
                       else dev),
                    [Log INFO ''SSE instant: %s -> %s''])
           | Inr None \<Rightarrow>
               Inr (space, [Log WARNING ''SSE: Device not found for status: name=%s, id=%s''])))"

text \<open>\<^verbatim>\<open>_handle_relay_event\<close>.\<close>

definition handle_relay_event ::
  "deps \<Rightarrow> space \<Rightarrow> string \<Rightarrow> json \<Rightarrow> json \<Rightarrow> py_exn + space \<times> effect list" where
  "handle_relay_event deps space event_tag source_name source_id =
     (case map_of (RELAY_EVENTS deps) event_tag of
        None \<Rightarrow> Inl KeyError
      | Some (action_key, is_on) \<Rightarrow>
          (case find_device space source_name source_id of
             Inl e \<Rightarrow> Inl e
           | Inr (Some (k, dev)) \<Rightarrow>
               Inr (put_device space k (set_attr dev ''is_on'' (ABool is_on)),
                    [Log INFO ''SSE instant: %s -> %s''])
           | Inr None \<Rightarrow>
               Inr (space, [Log WARNING ''SSE: Relay device not found: name=%s, id=%s''])))"

text \<open>
  \<^verbatim>\<open>_handle_scenario_event\<close>. \<open>py_iter\<close> is what the \<^verbatim>\<open>for\<close> loop iterates over: the
  items of a list, the characters of a string, the keys of a dict; anything else is not
  iterable. \<open>find_initiator\<close> is the loop; an item that is not a dict has no
  \<^verbatim>\<open>get\<close>.
\<close>

fun py_iter :: "json \<Rightarrow> py_exn + json list" where
  "py_iter (JArr xs) = Inr xs"
| "py_iter (JStr s) = Inr (map (\<lambda>c. JStr [c]) s)"
| "py_iter (JObj kvs) = Inr (map (\<lambda>kv. JStr (fst kv)) kvs)"
| "py_iter _ = Inl TypeError"

fun find_initiator :: "json list \<Rightarrow> py_exn + (json \<times> json) option" where
  "find_initiator [] = Inr None"
| "find_initiator (JObj d # rest) =
     (if dict_get d ''additionalDataV2Type'' JNull = JStr ''INITIATOR_INFO''
      then Inr (Some (dict_get d ''objectName'' JNull, dict_get d ''objectType'' JNull))
      else find_initiator rest)"
| "find_initiator (_ # rest) = Inl AttributeError"

definition handle_scenario_event ::
  "space \<Rightarrow> (string \<times> json) list \<Rightarrow> string \<Rightarrow> py_exn + effect list" where
  "handle_scenario_event space event event_tag =
     (let additional_data_v2 = dict_get event ''additionalDataV2'' (JArr []);
          source_name = dict_get event ''sourceObjectName'' (JStr [])
      in case py_iter additional_data_v2 of
           Inl e \<Rightarrow> Inl e
         | Inr items \<Rightarrow>
             (case find_initiator items of
                Inl e \<Rightarrow> Inl e
              | Inr found \<Rightarrow>
                  let initiator_name = (case found of Some (n, t) \<Rightarrow> n | None \<Rightarrow> JNull);
                      initiator_type = (case found of Some (n, t) \<Rightarrow> t | None \<Rightarrow> JNull)
                  in if \<not> truthy initiator_name
                     then Inr [Log DEBUG ''SSE scenario: no initiator info found'']
                     else Inr [Log INFO ''SSE scenario: %s triggered by %s (type=%s)'',
                               Fire_scenario initiator_name initiator_type source_name
                                 event_tag (space_name space)]))"

section \<open>The event handler\<close>

text \<open>
  The locals that \<^verbatim>\<open>_handle_event\<close> extracts from the payload before deduplication.
\<close>

record event_info =
  ev_event :: "(string \<times> json) list"
  ev_tag :: string
  ev_hub_id :: json
  ev_code :: json
  ev_source_name :: json
  ev_source_id :: json
  ev_source_type :: json
  ev_type :: string
  ev_transition :: string

text \<open>
  The first part of \<^verbatim>\<open>_handle_event\<close>, up to the parsed event code. \<open>Inr None\<close> is the
  early \<^verbatim>\<open>return\<close> for a missing tag or hub; \<open>Inl\<close> is a raise: \<^verbatim>\<open>.get\<close> on an
  \<^verbatim>\<open>event\<close> that is no dict, \<^verbatim>\<open>.lower()\<close> on a tag that is no string.
\<close>

definition extract_event :: "deps \<Rightarrow> (string \<times> json) list \<Rightarrow> py_exn + event_info option" where
  "extract_event deps event_data =
     (case dict_get event_data ''event'' (JObj event_data) of
        JObj event \<Rightarrow>
          (case dict_get event ''eventTag'' (JStr []) of
             JStr tag_raw \<Rightarrow>
               let event_tag = lower tag_raw;
                   hub = dict_get event ''hubId'' JNull
               in if event_tag = [] \<or> \<not> truthy hub then Inr None
                  else
                    let event_code = dict_get event ''eventCode'' (JStr []);
                        source = dict_get event ''source'' (JObj []);
                        device = dict_get event ''device'' (JObj []);
                        source_name0 =
                          (if is_dict device \<and> truthy (jget device ''name'')
                           then jget device ''name''
                           else if is_dict source then jget source ''name'' else JNull);
                        source_name =
                          (if \<not> truthy source_name0
                           then py_or (dict_get event ''sourceObjectName'' JNull)
                                      (dict_get event ''sourceName'' (JStr []))
                           else source_name0);
                        source_id =
                          (if is_dict device \<and> truthy (jget device ''id'')
                           then jget device ''id''
                           else py_or (dict_get event ''sourceObjectId'' JNull)
                                      (dict_get event ''deviceId'' (JStr [])));
                        source_type0 =
                          (if is_dict device \<and> truthy (jget device ''type'')
                           then jget device ''type''
                           else if is_dict source then jget source ''type'' else JNull);
                        source_type =
                          (if \<not> truthy source_type0
                           then py_or (dict_get event ''sourceObjectType'' JNull)
                                      (dict_get event ''sourceType'' (JStr []))
                           else source_type0);
                        code_info = parse_event_code deps event_code;
                        event_type =
                          (case code_info of
                             None \<Rightarrow> ''UNKNOWN''
                           | Some ci \<Rightarrow>
                               if ci = [] then ''UNKNOWN''
                               else (case map_of ci ''type'' of Some v \<Rightarrow> v | None \<Rightarrow> ''UNKNOWN''));
                        transition =
                          (case code_info of
                             None \<Rightarrow> ''TRIGGERED''
                           | Some ci \<Rightarrow>
                               if ci = [] then ''TRIGGERED''
                               else (case map_of ci ''transition'' of
                                       Some v \<Rightarrow> v | None \<Rightarrow> ''TRIGGERED''))
                    in Inr (Some \<lparr>ev_event = event, ev_tag = event_tag, ev_hub_id = hub,
                                 ev_code = event_code, ev_source_name = source_name,
                                 ev_source_id = source_id, ev_source_type = source_type,
                                 ev_type = event_type, ev_transition = transition\<rparr>)
           | _ \<Rightarrow> Inl AttributeError)
      | _ \<Rightarrow> Inl AttributeError)"

text \<open>The f-string \<^verbatim>\<open>f"{source_id}:{event_tag}:{transition}"\<close>.\<close>

definition event_key :: "deps \<Rightarrow> event_info \<Rightarrow> string" where
  "event_key deps ev =
     (case ev_source_id ev of JStr s \<Rightarrow> s | v \<Rightarrow> py_str deps v)
       @ '':'' @ ev_tag ev @ '':'' @ ev_transition ev"

text \<open>\<^verbatim>\<open>self._recent_events.get(event_key, 0)\<close>.\<close>

definition last_time :: "sse_state \<Rightarrow> string \<Rightarrow> real" where
  "last_time st k = (case recent_events st k of Some v \<Rightarrow> v | None \<Rightarrow> 0)"

text \<open>The dict comprehension that drops the entries of the cache aged 60 seconds or more.\<close>

definition prune :: "real \<Rightarrow> (string \<rightharpoonup> real) \<Rightarrow> (string \<rightharpoonup> real)" where
  "prune t m =
     (\<lambda>k. case m k of Some v \<Rightarrow> if t - v < 60 then Some v else None | None \<Rightarrow> None)"

text \<open>The loop over \<^verbatim>\<open>coordinator.account.spaces.values()\<close>: the first space of the hub.\<close>

definition find_space :: "sse_state \<Rightarrow> json \<Rightarrow> (string \<times> space) option" where
  "find_space st hub = find (\<lambda>(k, s). JStr (hub_id s) = hub) (spaces st)"

definition put_space :: "sse_state \<Rightarrow> string \<Rightarrow> space \<Rightarrow> sse_state" where
  "put_space st k sp =
     st\<lparr>spaces := map (\<lambda>(k', s). if k' = k then (k', sp) else (k', s)) (spaces st)\<rparr>"

text \<open>
  What follows a device handler's return in \<^verbatim>\<open>_handle_event\<close>: the space object carries
  the handler's writes and the coordinator is notified; a raise leaves the \<^verbatim>\<open>try\<close> block.
\<close>

definition after_handler ::
  "sse_state \<Rightarrow> string \<Rightarrow> py_exn + space \<times> effect list
     \<Rightarrow> py_exn option \<times> sse_state \<times> effect list" where
  "after_handler st sk r =
     (case r of
        Inl e \<Rightarrow> (Some e, st, [])
      | Inr (space', effs) \<Rightarrow> (None, put_space st sk space', effs @ [Set_updated_data]))"

text \<open>The \<^verbatim>\<open>if\<close>/\<^verbatim>\<open>elif\<close> chain of \<^verbatim>\<open>_handle_event\<close> and the coordinator update after it.\<close>

definition dispatch ::
  "deps \<Rightarrow> clock \<Rightarrow> sse_state \<Rightarrow> string \<Rightarrow> space \<Rightarrow> event_info
     \<Rightarrow> py_exn option \<times> sse_state \<times> effect list" where
  "dispatch deps clk st sk space ev =
     (let event_tag = ev_tag ev; source_name = ev_source_name ev;
          source_id = ev_source_id ev; transition = ev_transition ev
      in if map_of (EVENT_TAG_TO_STATE deps) event_tag \<noteq> None then
           (case handle_security_event deps clk (last_state_update st) space event_tag source_name of
              (lsu', space', effs) \<Rightarrow>
                (None, put_space (st\<lparr>last_state_update := lsu'\<rparr>) sk space',
                 effs @ [Set_updated_data]))
         else if map_of (DOOR_EVENTS deps) event_tag \<noteq> None then
           after_handler st sk
             (handle_door_event deps clk space event_tag source_name source_id transition)
         else if map_of (MOTION_EVENTS deps) event_tag \<noteq> None then
           after_handler st sk
             (handle_motion_event deps clk space event_tag source_name source_id)
         else if map_of (SMOKE_EVENTS deps) event_tag \<noteq> None then
           after_handler st sk (handle_smoke_event deps space event_tag source_name source_id)
         else if map_of (FLOOD_EVENTS deps) event_tag \<noteq> None then
           after_handler st sk (handle_flood_event deps space event_tag source_name source_id)
         else if map_of (GLASS_EVENTS deps) event_tag \<noteq> None then
           after_handler st sk (handle_glass_event deps space event_tag source_name source_id)
         else if map_of (TAMPER_EVENTS deps) event_tag \<noteq> None then
           after_handler st sk
             (handle_tamper_event deps space event_tag source_name source_id transition)
         else if map_of (DEVICE_STATUS_EVENTS deps) event_tag \<noteq> None then
           after_handler st sk
             (handle_device_status_event deps space event_tag source_name source_id)
         else if map_of (RELAY_EVENTS deps) event_tag \<noteq> None then
           after_handler st sk (handle_relay_event deps space event_tag source_name source_id)
         else if event_tag \<in> set (SCENARIO_EVENTS deps) then
           (case handle_scenario_event space (ev_event ev) event_tag of
              Inl e \<Rightarrow> (Some e, st, [])
            | Inr effs \<Rightarrow> (None, st, effs @ [Set_updated_data]))
         else (None, st,
               [Log WARNING ''SSE event not handled: tag=%s, type=%s, source=%s (id=%s)'',
                Set_updated_data]))"

text \<open>
  The two statements after the duplicate check: the arrival time is recorded under the
  event key, then the cache is cleaned up.
\<close>

definition remember :: "sse_state \<Rightarrow> string \<Rightarrow> real \<Rightarrow> sse_state" where
  "remember st key t = st\<lparr>recent_events := prune t ((recent_events st)(key \<mapsto> t))\<rparr>"

text \<open>
  Hub lookup and dispatch, on the state in which the arrival has been recorded: what
  \<^verbatim>\<open>_handle_event\<close> does with an event that is not a duplicate.
\<close>

definition lookup_and_dispatch ::
  "deps \<Rightarrow> clock \<Rightarrow> sse_state \<Rightarrow> event_info \<Rightarrow> py_exn option \<times> sse_state \<times> effect list" where
  "lookup_and_dispatch deps clk st1 ev =
     (case find_space st1 (ev_hub_id ev) of
        None \<Rightarrow> (None, st1, [Log WARNING ''SSE: Unknown hub %s''])
      | Some (sk, space) \<Rightarrow> dispatch deps clk st1 sk space ev)"

text \<open>
  Deduplication, cache clean-up, hub lookup and dispatch for an extracted event: the part
  of \<^verbatim>\<open>_handle_event\<close> after the log line. The first component is the exception that
  leaves the \<^verbatim>\<open>try\<close> block, if any; the state is the one reached when it is raised.
\<close>

definition process_event ::
  "deps \<Rightarrow> clock \<Rightarrow> sse_state \<Rightarrow> event_info \<Rightarrow> py_exn option \<times> sse_state \<times> effect list" where
  "process_event deps clk st ev =
     (let key = event_key deps ev; t = now clk
      in if t - last_time st key < dedup_window st then
           (None, st, [Log DEBUG ''SSE event ignored (duplicate): %s, last seen %.1fs ago''])
         else lookup_and_dispatch deps clk (remember st key t) ev)"

text \<open>The body of the \<^verbatim>\<open>try\<close> block of \<^verbatim>\<open>_handle_event\<close>.\<close>

definition handle_event_body ::
  "deps \<Rightarrow> clock \<Rightarrow> sse_state \<Rightarrow> (string \<times> json) list
     \<Rightarrow> py_exn option \<times> sse_state \<times> effect list" where
  "handle_event_body deps clk st event_data =
     (case extract_event deps event_data of
        Inl e \<Rightarrow> (Some e, st, [])
      | Inr None \<Rightarrow> (None, st, [Log DEBUG ''SSE event missing eventTag or hubId: %s''])
      | Inr (Some ev) \<Rightarrow>
          (case process_event deps clk st ev of
             (x, st', effs) \<Rightarrow>
               (x, st',
                Log INFO ''SSE event: type=%s, tag=%s, code=%s, source=%s (%s), id=%s, transition=%s''
                  # effs)))"

text \<open>
  \<^verbatim>\<open>_handle_event\<close>: the body under \<^verbatim>\<open>try\<close> / \<^verbatim>\<open>except Exception\<close>. The first component
  of the result is the exception that leaves the handler, if any.
\<close>

definition handle_event ::
  "deps \<Rightarrow> clock \<Rightarrow> sse_state \<Rightarrow> (string \<times> json) list
     \<Rightarrow> py_exn option \<times> sse_state \<times> effect list" where
  "handle_event deps clk st event_data =
     (case handle_event_body deps clk st event_data of
        (Some err, st', effs) \<Rightarrow> (None, st', effs @ [Log ERROR ''SSE event processing error: %s''])
      | (None, st', effs) \<Rightarrow> (None, st', effs))"

text \<open>
  Modelled from the spec: the push transport, whose client is not among the sources at
  hand. It calls the registered handler once per payload, in order; an exception leaving
  the handler would end the delivery. The result holds the exception (if one escaped),
  the state reached, the effects, and the payloads left undelivered.
\<close>

fun deliver_all ::
  "deps \<Rightarrow> sse_state \<Rightarrow> (clock \<times> (string \<times> json) list) list
     \<Rightarrow> py_exn option \<times> sse_state \<times> effect list \<times> (clock \<times> (string \<times> json) list) list" where
  "deliver_all deps st [] = (None, st, [], [])"
| "deliver_all deps st ((clk, event_data) # rest) =
     (case handle_event deps clk st event_data of
        (Some err, st', effs) \<Rightarrow> (Some err, st', effs, rest)
      | (None, st', effs) \<Rightarrow>
          (case deliver_all deps st' rest of
             (x, st'', effs', left) \<Rightarrow> (x, st'', effs @ effs', left)))"

section \<open>Observers\<close>

definition state_of :: "py_exn option \<times> sse_state \<times> effect list \<Rightarrow> sse_state" where
  "state_of r = fst (snd r)"

definition effects_of :: "py_exn option \<times> sse_state \<times> effect list \<Rightarrow> effect list" where
  "effects_of r = snd (snd r)"

text \<open>The value of an attribute of the device under key \<open>k\<close> of the space under key \<open>sk\<close>.\<close>

definition device_attr :: "sse_state \<Rightarrow> string \<Rightarrow> string \<Rightarrow> string \<Rightarrow> attr_value option" where
  "device_attr st sk k a =
     (case map_of (spaces st) sk of
        None \<Rightarrow> None
      | Some sp \<Rightarrow> (case map_of (devices sp) k of None \<Rightarrow> None | Some d \<Rightarrow> attributes d a))"

fun is_notification :: "effect \<Rightarrow> bool" where
  "is_notification (Create_notification a s n) = True"
| "is_notification _ = False"

text \<open>A field of the \<^verbatim>\<open>event\<close> object of a payload; a value that is no dict has none.\<close>

definition payload_event :: "(string \<times> json) list \<Rightarrow> json" where
  "payload_event event_data = dict_get event_data ''event'' (JObj event_data)"

fun field :: "json \<Rightarrow> string \<Rightarrow> json option" where
  "field (JObj kvs) k = map_of kvs k"
| "field _ k = None"

text \<open>The tag is in one of the eight device tables and not in the security table.\<close>

definition device_category :: "deps \<Rightarrow> string \<Rightarrow> bool" where
  "device_category deps tag =
     (map_of (EVENT_TAG_TO_STATE deps) tag = None \<and>
      (map_of (DOOR_EVENTS deps) tag \<noteq> None \<or> map_of (MOTION_EVENTS deps) tag \<noteq> None \<or>
       map_of (SMOKE_EVENTS deps) tag \<noteq> None \<or> map_of (FLOOD_EVENTS deps) tag \<noteq> None \<or>
       map_of (GLASS_EVENTS deps) tag \<noteq> None \<or> map_of (TAMPER_EVENTS deps) tag \<noteq> None \<or>
       map_of (DEVICE_STATUS_EVENTS deps) tag \<noteq> None \<or> map_of (RELAY_EVENTS deps) tag \<noteq> None))"

text \<open>The tag is in no table at all.\<close>

definition unhandled_tag :: "deps \<Rightarrow> string \<Rightarrow> bool" where
  "unhandled_tag deps tag =
     (map_of (EVENT_TAG_TO_STATE deps) tag = None \<and>
      map_of (DOOR_EVENTS deps) tag = None \<and> map_of (MOTION_EVENTS deps) tag = None \<and>
      map_of (SMOKE_EVENTS deps) tag = None \<and> map_of (FLOOD_EVENTS deps) tag = None \<and>
      map_of (GLASS_EVENTS deps) tag = None \<and> map_of (TAMPER_EVENTS deps) tag = None \<and>
      map_of (DEVICE_STATUS_EVENTS deps) tag = None \<and> map_of (RELAY_EVENTS deps) tag = None \<and>
      tag \<notin> set (SCENARIO_EVENTS deps))"

text \<open>The state after a sequence of deliveries.\<close>

definition state_after ::
  "deps \<Rightarrow> sse_state \<Rightarrow> (clock \<times> (string \<times> json) list) list \<Rightarrow> sse_state" where
  "state_after deps st evs = fst (snd (deliver_all deps st evs))"

text \<open>
  No delivery of the sequence, run from state \<open>st\<close> on, is a processed delivery of the
  key: each one either yields no event (it is dropped or raises before the duplicate
  check), or has another key, or is suppressed as a duplicate.
\<close>

fun not_processed_for ::
  "deps \<Rightarrow> string \<Rightarrow> sse_state \<Rightarrow> (clock \<times> (string \<times> json) list) list \<Rightarrow> bool" where
  "not_processed_for deps key st [] = True"
| "not_processed_for deps key st ((clk, event_data) # rest) =
     ((case extract_event deps event_data of
         Inr (Some ev) \<Rightarrow>
           event_key deps ev \<noteq> key \<or>
           now clk - last_time st (event_key deps ev) < dedup_window st
       | _ \<Rightarrow> True) \<and>
      not_processed_for deps key (state_of (handle_event deps clk st event_data)) rest)"

section \<open>Device resolution as the specification words it\<close>

text \<open>
  The resolver of the specification, on strings: exact id, then the 8-of-16 suffix, then
  the name, the first match winning.
\<close>

definition resolve_spec :: "space \<Rightarrow> string \<Rightarrow> string \<Rightarrow> (string \<times> device) option" where
  "resolve_spec space source_name source_id =
     (case find (\<lambda>(k, d). k = source_id) (devices space) of
        Some r \<Rightarrow> Some r
      | None \<Rightarrow>
          (case (if length source_id = 8
                 then find (\<lambda>(k, d). length (dev_id d) = 16 \<and> endswith (dev_id d) source_id)
                        (devices space)
                 else None) of
             Some r \<Rightarrow> Some r
           | None \<Rightarrow> find (\<lambda>(k, d). dev_name d = source_name) (devices space)))"

text \<open>
  The same three rules, the id rules tried only for a non-empty source id and the name
  rule only for a non-empty source name.
\<close>

definition resolve_guarded :: "space \<Rightarrow> string \<Rightarrow> string \<Rightarrow> (string \<times> device) option" where
  "resolve_guarded space source_name source_id =
     (case (if source_id \<noteq> [] then find (\<lambda>(k, d). k = source_id) (devices space) else None) of
        Some r \<Rightarrow> Some r
      | None \<Rightarrow>
          (case (if source_id \<noteq> [] \<and> length source_id = 8
                 then find (\<lambda>(k, d). length (dev_id d) = 16 \<and> endswith (dev_id d) source_id)
                        (devices space)
                 else None) of
             Some r \<Rightarrow> Some r
           | None \<Rightarrow>
               if source_name \<noteq> [] then find (\<lambda>(k, d). dev_name d = source_name) (devices space)
               else None))"

section \<open>An example installation\<close>

text \<open>
  Tables, an event code parser and a pending-command tracker to run the handler on; the
  real tables are larger.
\<close>

definition ex_parse_event_code :: "json \<Rightarrow> (string \<times> string) list option" where
  "ex_parse_event_code c =
     (if c = JStr ''M_01_21'' then Some [(''type'', ''ALARM''), (''transition'', ''RECOVERED'')]
      else if c = JStr ''M_01_20'' then Some [(''type'', ''ALARM''), (''transition'', ''TRIGGERED'')]
      else None)"

text \<open>
  Python's \<^verbatim>\<open>str()\<close> on \<^verbatim>\<open>None\<close>, the booleans and the non-negative integers, in
  decimal; the examples format no other value.
\<close>

fun decimal :: "nat \<Rightarrow> string" where
  "decimal n =
     (if n < 10 then [''0123456789'' ! n]
      else decimal (n div 10) @ [''0123456789'' ! (n mod 10)])"

definition ex_py_str :: "json \<Rightarrow> string" where
  "ex_py_str v =
     (case v of
        JNull \<Rightarrow> ''None''
      | JBool b \<Rightarrow> (if b then ''True'' else ''False'')
      | JNum r \<Rightarrow> decimal (nat \<lfloor>r\<rfloor>)
      | JStr s \<Rightarrow> s
      | _ \<Rightarrow> [])"

definition ex_deps :: deps where
  "ex_deps =
     \<lparr>EVENT_TAG_TO_STATE = [(''arm'', ''armed''), (''disarm'', ''disarmed''),
                            (''grouparm'', ''armed'')],
      DOOR_EVENTS = [(''dooropened'', (''door_opened'', True)),
                     (''doorclosed'', (''door_closed'', False))],
      MOTION_EVENTS = [(''motiondetected'', (''motion_detected'', True))],
      SMOKE_EVENTS = [(''smokedetected'', (''smoke_detected'', True))],
      FLOOD_EVENTS = [(''leakdetected'', (''leak_detected'', True))],
      GLASS_EVENTS = [(''glassbreak'', (''glass_break'', True))],
      TAMPER_EVENTS = [(''tamperopened'', (''tamper_opened'', True))],
      DEVICE_STATUS_EVENTS = [(''batterylow'', (''battery_low'', True))],
      RELAY_EVENTS = [(''relayon'', (''relay_on'', True))],
      SCENARIO_EVENTS = [''relayonbyscenario''],
      parse_event_code = ex_parse_event_code,
      get_pending_ha_action = (\<lambda>h. h = ''H2''),
      py_str = ex_py_str\<rparr>"

definition ex_device :: device where
  "ex_device =
     \<lparr>dev_id = ''D1'', dev_name = ''Front door'', online = True, attributes = Map.empty\<rparr>"

definition ex_space :: space where
  "ex_space =
     \<lparr>hub_id = ''H1'', space_name = ''Home'', security_state = ''armed'',
      devices = [(''D1'', ex_device)]\<rparr>"

definition ex_state :: sse_state where
  "ex_state = init_state [(''S1'', ex_space)]"

definition ex_clock :: "real \<Rightarrow> string \<Rightarrow> clock" where
  "ex_clock t stamp = \<lparr>now = t, now_mark = t, now_iso = stamp\<rparr>"

definition ex_door_payload :: "(string \<times> json) list" where
  "ex_door_payload =
     [(''eventTag'', JStr ''DoorOpened''), (''hubId'', JStr ''H1''),
      (''device'', JObj [(''id'', JStr ''D1'')])]"

definition ex_door_event :: event_info where
  "ex_door_event =
     \<lparr>ev_event = ex_door_payload, ev_tag = ''dooropened'', ev_hub_id = JStr ''H1'',
      ev_code = JStr [], ev_source_name = JStr [], ev_source_id = JStr ''D1'',
      ev_source_type = JStr [], ev_type = ''UNKNOWN'', ev_transition = ''TRIGGERED''\<rparr>"

text \<open>The state after the door payload has been processed at time \<open>t\<close>.\<close>

definition ex_door_state :: "real \<Rightarrow> string \<Rightarrow> sse_state" where
  "ex_door_state t stamp =
     \<lparr>spaces =
        [(''S1'',
          \<lparr>hub_id = ''H1'', space_name = ''Home'', security_state = ''armed'',
           devices =
             [(''D1'',
               \<lparr>dev_id = ''D1'', dev_name = ''Front door'', online = True,
                attributes = [''door_opened'' \<mapsto> ABool True,
                              ''door_opened_at'' \<mapsto> AStr stamp]\<rparr>)]\<rparr>)],
      last_state_update = Map.empty,
      recent_events = [''D1:dooropened:TRIGGERED'' \<mapsto> t],
      dedup_window = 5\<rparr>"

text \<open>A payload whose tag is \<^verbatim>\<open>null\<close>, and a door payload whose device id is a number.\<close>

definition ex_bad_payload :: "(string \<times> json) list" where
  "ex_bad_payload = [(''eventTag'', JNull), (''hubId'', JStr ''H1'')]"

definition ex_numeric_id_payload :: "(string \<times> json) list" where
  "ex_numeric_id_payload =
     [(''eventTag'', JStr ''DoorOpened''), (''hubId'', JStr ''H1''),
      (''device'', JObj [(''id'', JNum 7)])]"

definition ex_numeric_id_event :: event_info where
  "ex_numeric_id_event =
     \<lparr>ev_event = ex_numeric_id_payload, ev_tag = ''dooropened'', ev_hub_id = JStr ''H1'',
      ev_code = JStr [], ev_source_name = JStr [], ev_source_id = JNum 7,
      ev_source_type = JStr [], ev_type = ''UNKNOWN'', ev_transition = ''TRIGGERED''\<rparr>"

text \<open>A door payload for a device that the space does not hold.\<close>

definition ex_unknown_device_payload :: "(string \<times> json) list" where
  "ex_unknown_device_payload =
     [(''eventTag'', JStr ''DoorOpened''), (''hubId'', JStr ''H1''),
      (''device'', JObj [(''id'', JStr ''D9'')])]"

definition ex_unknown_device_event :: event_info where
  "ex_unknown_device_event =
     \<lparr>ev_event = ex_unknown_device_payload, ev_tag = ''dooropened'', ev_hub_id = JStr ''H1'',
      ev_code = JStr [], ev_source_name = JStr [], ev_source_id = JStr ''D9'',
      ev_source_type = JStr [], ev_type = ''UNKNOWN'', ev_transition = ''TRIGGERED''\<rparr>"

text \<open>A disarm by a user, and an arm on a second hub for which a local command is pending.\<close>

definition ex_disarm_payload :: "(string \<times> json) list" where
  "ex_disarm_payload =
     [(''eventTag'', JStr ''disarm''), (''hubId'', JStr ''H1''),
      (''source'', JObj [(''name'', JStr ''Alice'')])]"

definition ex_disarm_event :: event_info where
  "ex_disarm_event =
     \<lparr>ev_event = ex_disarm_payload, ev_tag = ''disarm'', ev_hub_id = JStr ''H1'',
      ev_code = JStr [], ev_source_name = JStr ''Alice'', ev_source_id = JStr [],
      ev_source_type = JStr [], ev_type = ''UNKNOWN'', ev_transition = ''TRIGGERED''\<rparr>"

text \<open>The state after the disarm payload has been processed at time \<open>t\<close>, marked at \<open>m\<close>.\<close>

definition ex_disarm_state :: "real \<Rightarrow> real \<Rightarrow> sse_state" where
  "ex_disarm_state t m =
     \<lparr>spaces =
        [(''S1'',
          \<lparr>hub_id = ''H1'', space_name = ''Home'', security_state = ''disarmed'',
           devices = [(''D1'', ex_device)]\<rparr>)],
      last_state_update = [''H1'' \<mapsto> m],
      recent_events = ['':disarm:TRIGGERED'' \<mapsto> t],
      dedup_window = 5\<rparr>"

definition ex_space2 :: space where
  "ex_space2 =
     \<lparr>hub_id = ''H2'', space_name = ''Office'', security_state = ''armed'', devices = []\<rparr>"

definition ex_state2 :: sse_state where
  "ex_state2 = init_state [(''S1'', ex_space), (''S2'', ex_space2)]"

definition ex_arm2_payload :: "(string \<times> json) list" where
  "ex_arm2_payload =
     [(''event'', JObj [(''eventTag'', JStr ''Arm''), (''hubId'', JStr ''H2''),
                        (''source'', JObj [(''name'', JStr ''Bob'')])])]"

definition ex_arm2_event :: event_info where
  "ex_arm2_event =
     \<lparr>ev_event = [(''eventTag'', JStr ''Arm''), (''hubId'', JStr ''H2''),
                  (''source'', JObj [(''name'', JStr ''Bob'')])],
      ev_tag = ''arm'', ev_hub_id = JStr ''H2'',
      ev_code = JStr [], ev_source_name = JStr ''Bob'', ev_source_id = JStr [],
      ev_source_type = JStr [], ev_type = ''UNKNOWN'', ev_transition = ''TRIGGERED''\<rparr>"

text \<open>A space whose only device has an empty name.\<close>

definition unnamed_space :: space where
  "unnamed_space =
     \<lparr>hub_id = ''H1'', space_name = ''Home'', security_state = ''armed'',
      devices = [(''D2'', \<lparr>dev_id = ''D2'', dev_name = [], online = True,
                            attributes = Map.empty\<rparr>)]\<rparr>"

text \<open>A space with two devices of the same name, and the same space iterated the other way.\<close>

definition twin_a :: device where
  "twin_a = \<lparr>dev_id = ''A1'', dev_name = ''Door'', online = True, attributes = Map.empty\<rparr>"

definition twin_b :: device where
  "twin_b = \<lparr>dev_id = ''B1'', dev_name = ''Door'', online = True, attributes = Map.empty\<rparr>"

definition twin_space :: space where
  "twin_space =
     \<lparr>hub_id = ''H1'', space_name = ''Home'', security_state = ''armed'',
      devices = [(''A1'', twin_a), (''B1'', twin_b)]\<rparr>"

definition twin_space_rev :: space where
  "twin_space_rev = twin_space\<lparr>devices := rev (devices twin_space)\<rparr>"

text \<open>A space with two devices of different names, and the same space iterated the other way.\<close>

definition pair_space :: space where
  "pair_space =
     \<lparr>hub_id = ''H1'', space_name = ''Home'', security_state = ''armed'',
      devices = [(''A1'', twin_a), (''D1'', ex_device)]\<rparr>"

definition pair_space_rev :: space where
  "pair_space_rev = pair_space\<lparr>devices := rev (devices pair_space)\<rparr>"

section \<open>Properties\<close>

subsection \<open>Helper lemmas\<close>

declare decimal.simps [simp del]

lemma ex_py_str_7: "ex_py_str (JNum 7) = ''7''"
  by (simp add: ex_py_str_def decimal.simps)

lemma put_lookup:
  "k \<in> fst ` set xs \<Longrightarrow>
   map_of (map (\<lambda>(k', d). if k' = k then (k', v) else (k', d)) xs) k = Some v"
  by (induction xs) auto

lemma find_in_set: "find P xs = Some x \<Longrightarrow> x \<in> set xs \<and> P x"
  by (induction xs) (auto split: if_splits)

lemma find_device_in_space:
  assumes "find_device space source_name source_id = Inr (Some (k, dev))"
  shows "(k, dev) \<in> set (devices space)"
proof -
  have "map_of (devices space) k = Some dev \<or>
        (\<exists>P. find P (devices space) = Some (k, dev))"
    using assms unfolding find_device_def
    by (simp split: if_splits json.splits option.splits) blast+
  then show ?thesis
    by (auto dest: map_of_SomeD find_in_set)
qed

lemma put_device_lookup:
  assumes "find_device space source_name source_id = Inr (Some (k, dev))"
  shows "map_of (devices (put_device space k dev')) k = Some dev'"
proof -
  have "(k, dev) \<in> set (devices space)"
    using assms by (rule find_device_in_space)
  then have "k \<in> fst ` set (devices space)"
    by force
  then show ?thesis
    by (simp add: put_device_def put_lookup)
qed

lemma ex_deps_sel:
  "EVENT_TAG_TO_STATE ex_deps =
     [(''arm'', ''armed''), (''disarm'', ''disarmed''), (''grouparm'', ''armed'')]"
  "DOOR_EVENTS ex_deps =
     [(''dooropened'', (''door_opened'', True)), (''doorclosed'', (''door_closed'', False))]"
  "MOTION_EVENTS ex_deps = [(''motiondetected'', (''motion_detected'', True))]"
  "SMOKE_EVENTS ex_deps = [(''smokedetected'', (''smoke_detected'', True))]"
  "FLOOD_EVENTS ex_deps = [(''leakdetected'', (''leak_detected'', True))]"
  "GLASS_EVENTS ex_deps = [(''glassbreak'', (''glass_break'', True))]"
  "TAMPER_EVENTS ex_deps = [(''tamperopened'', (''tamper_opened'', True))]"
  "DEVICE_STATUS_EVENTS ex_deps = [(''batterylow'', (''battery_low'', True))]"
  "RELAY_EVENTS ex_deps = [(''relayon'', (''relay_on'', True))]"
  "SCENARIO_EVENTS ex_deps = [''relayonbyscenario'']"
  "parse_event_code ex_deps = ex_parse_event_code"
  "get_pending_ha_action ex_deps = (\<lambda>h. h = ''H2'')"
  "py_str ex_deps = ex_py_str"
  by (simp_all add: ex_deps_def)

lemma extract_ex_door: "extract_event ex_deps ex_door_payload = Inr (Some ex_door_event)"
  by (simp add: extract_event_def ex_door_payload_def ex_door_event_def dict_get_def lower_def
      lower_char_def py_or_def ex_deps_sel ex_parse_event_code_def Let_def)

lemma extract_ex_numeric_id:
  "extract_event ex_deps ex_numeric_id_payload = Inr (Some ex_numeric_id_event)"
  by (simp add: extract_event_def ex_numeric_id_payload_def ex_numeric_id_event_def
      dict_get_def lower_def lower_char_def py_or_def ex_deps_sel ex_parse_event_code_def Let_def)

lemma find_device_ex:
  "find_device ex_space (JStr []) (JStr ''D1'') = Inr (Some (''D1'', ex_device))"
  by (simp add: find_device_def ex_space_def)

subsection \<open>Protection window\<close>

text \<open>
  C6. \<^verbatim>\<open>is_state_protected\<close> is true exactly while the time since the hub's last mark
  is below 5 seconds: for a hub marked at \<open>T\<close>, a query at \<open>T'\<close> reports protected
  iff \<open>T' - T < 5\<close>. A hub never marked reads as marked at time 0 and so reports
  unprotected at every clock reading of 5 seconds or more after the epoch.
\<close>

theorem is_state_protected_window:
  "(last_state_update st hub = Some T \<longrightarrow> is_state_protected st hub T' = (T' - T < 5)) \<and>
   (last_state_update st hub = None \<and> 5 \<le> T' \<longrightarrow> \<not> is_state_protected st hub T')"
  by (simp add: is_state_protected_def)

theorem is_state_protected_window_witness:
  "last_state_update ((init_state [])\<lparr>last_state_update := [''H1'' \<mapsto> 100]\<rparr>) ''H1'' = Some 100 \<and>
   is_state_protected ((init_state [])\<lparr>last_state_update := [''H1'' \<mapsto> 100]\<rparr>) ''H1'' 104 \<and>
   \<not> is_state_protected ((init_state [])\<lparr>last_state_update := [''H1'' \<mapsto> 100]\<rparr>) ''H1'' 105 \<and>
   last_state_update (init_state []) ''H1'' = None \<and>
   \<not> is_state_protected (init_state []) ''H1'' 1000"
  using is_state_protected_window
          [of "(init_state [])\<lparr>last_state_update := [''H1'' \<mapsto> 100]\<rparr>" "''H1''" 100 104]
        is_state_protected_window
          [of "(init_state [])\<lparr>last_state_update := [''H1'' \<mapsto> 100]\<rparr>" "''H1''" 100 105]
        is_state_protected_window [of "init_state []" "''H1''" 0 1000]
  by (simp add: init_state_def)

subsection \<open>Door and tamper transitions\<close>

lemma handle_door_event_found:
  assumes "find_device space source_name source_id = Inr (Some (k, dev))"
    and "map_of (DOOR_EVENTS deps) tag = Some (a, dflt)"
  shows "handle_door_event deps clk space tag source_name source_id tr =
         Inr (put_device space k
                (set_attr (set_attr dev ''door_opened''
                   (ABool (if tr = ''RECOVERED'' then False
                           else if tr = ''TRIGGERED'' then True else dflt)))
                   ''door_opened_at'' (AStr (now_iso clk))),
              [Log INFO ''SSE instant: %s -> %s''])"
  using assms by (simp add: handle_door_event_def)

lemma handle_tamper_event_found:
  assumes "find_device space source_name source_id = Inr (Some (k, dev))"
    and "map_of (TAMPER_EVENTS deps) tag = Some (a, dflt)"
  shows "handle_tamper_event deps space tag source_name source_id tr =
         Inr (put_device space k
                (set_attr dev ''tampered''
                   (ABool (if tr = ''RECOVERED'' then False
                           else if tr = ''TRIGGERED'' then True else dflt))),
              [Log INFO ''SSE instant: %s -> %s (transition=%s)''])"
  using assms by (simp add: handle_tamper_event_def)

text \<open>
  C3. When the device of a door or tamper event is resolved, the handler returns normally
  and the device then carries \<open>door_opened\<close> (door) or \<open>tampered\<close> (tamper) with the
  value false for the transition RECOVERED, true for TRIGGERED, and the default of the
  tag's table entry for every other transition.
\<close>

theorem door_tamper_transition:
  assumes found: "find_device space source_name source_id = Inr (Some (k, dev))"
  shows "(map_of (DOOR_EVENTS deps) tag = Some (a, dflt) \<longrightarrow>
          (\<exists>space' effs dev' v.
             handle_door_event deps clk space tag source_name source_id tr = Inr (space', effs) \<and>
             map_of (devices space') k = Some dev' \<and>
             attributes dev' ''door_opened'' = Some (ABool v) \<and>
             (tr = ''RECOVERED'' \<longrightarrow> v = False) \<and>
             (tr = ''TRIGGERED'' \<longrightarrow> v = True) \<and>
             (tr \<noteq> ''RECOVERED'' \<and> tr \<noteq> ''TRIGGERED'' \<longrightarrow> v = dflt))) \<and>
         (map_of (TAMPER_EVENTS deps) tag = Some (a, dflt) \<longrightarrow>
          (\<exists>space' effs dev' v.
             handle_tamper_event deps space tag source_name source_id tr = Inr (space', effs) \<and>
             map_of (devices space') k = Some dev' \<and>
             attributes dev' ''tampered'' = Some (ABool v) \<and>
             (tr = ''RECOVERED'' \<longrightarrow> v = False) \<and>
             (tr = ''TRIGGERED'' \<longrightarrow> v = True) \<and>
             (tr \<noteq> ''RECOVERED'' \<and> tr \<noteq> ''TRIGGERED'' \<longrightarrow> v = dflt)))"
proof (intro conjI impI)
  let ?v = "if tr = ''RECOVERED'' then False else if tr = ''TRIGGERED'' then True else dflt"
  assume t: "map_of (DOOR_EVENTS deps) tag = Some (a, dflt)"
  let ?dev = "set_attr (set_attr dev ''door_opened'' (ABool ?v)) ''door_opened_at''
                (AStr (now_iso clk))"
  have r: "handle_door_event deps clk space tag source_name source_id tr =
           Inr (put_device space k ?dev, [Log INFO ''SSE instant: %s -> %s''])"
    by (rule handle_door_event_found[OF found t])
  have l: "map_of (devices (put_device space k ?dev)) k = Some ?dev"
    by (rule put_device_lookup[OF found])
  have a: "attributes ?dev ''door_opened'' = Some (ABool ?v)"
    by (simp add: set_attr_def)
  have c: "(tr = ''RECOVERED'' \<longrightarrow> ?v = False) \<and> (tr = ''TRIGGERED'' \<longrightarrow> ?v = True) \<and>
           (tr \<noteq> ''RECOVERED'' \<and> tr \<noteq> ''TRIGGERED'' \<longrightarrow> ?v = dflt)"
    by simp
  show "\<exists>space' effs dev' v.
             handle_door_event deps clk space tag source_name source_id tr = Inr (space', effs) \<and>
             map_of (devices space') k = Some dev' \<and>
             attributes dev' ''door_opened'' = Some (ABool v) \<and>
             (tr = ''RECOVERED'' \<longrightarrow> v = False) \<and>
             (tr = ''TRIGGERED'' \<longrightarrow> v = True) \<and>
             (tr \<noteq> ''RECOVERED'' \<and> tr \<noteq> ''TRIGGERED'' \<longrightarrow> v = dflt)"
    using r l a c by blast
next
  let ?v = "if tr = ''RECOVERED'' then False else if tr = ''TRIGGERED'' then True else dflt"
  assume t: "map_of (TAMPER_EVENTS deps) tag = Some (a, dflt)"
  let ?dev = "set_attr dev ''tampered'' (ABool ?v)"
  have r: "handle_tamper_event deps space tag source_name source_id tr =
           Inr (put_device space k ?dev, [Log INFO ''SSE instant: %s -> %s (transition=%s)''])"
    by (rule handle_tamper_event_found[OF found t])
  have l: "map_of (devices (put_device space k ?dev)) k = Some ?dev"
    by (rule put_device_lookup[OF found])
  have a: "attributes ?dev ''tampered'' = Some (ABool ?v)"
    by (simp add: set_attr_def)
  have c: "(tr = ''RECOVERED'' \<longrightarrow> ?v = False) \<and> (tr = ''TRIGGERED'' \<longrightarrow> ?v = True) \<and>
           (tr \<noteq> ''RECOVERED'' \<and> tr \<noteq> ''TRIGGERED'' \<longrightarrow> ?v = dflt)"
    by simp
  show "\<exists>space' effs dev' v.
             handle_tamper_event deps space tag source_name source_id tr = Inr (space', effs) \<and>
             map_of (devices space') k = Some dev' \<and>
             attributes dev' ''tampered'' = Some (ABool v) \<and>
             (tr = ''RECOVERED'' \<longrightarrow> v = False) \<and>
             (tr = ''TRIGGERED'' \<longrightarrow> v = True) \<and>
             (tr \<noteq> ''RECOVERED'' \<and> tr \<noteq> ''TRIGGERED'' \<longrightarrow> v = dflt)"
    using r l a c by blast
qed

theorem door_tamper_transition_witness:
  "find_device ex_space (JStr []) (JStr ''D1'') = Inr (Some (''D1'', ex_device)) \<and>
   map_of (DOOR_EVENTS ex_deps) ''dooropened'' = Some (''door_opened'', True) \<and>
   map_of (TAMPER_EVENTS ex_deps) ''tamperopened'' = Some (''tamper_opened'', True) \<and>
   (\<exists>space' effs dev'.
      handle_door_event ex_deps (ex_clock 1000 ''T1000'') ex_space ''dooropened'' (JStr [])
        (JStr ''D1'') ''RECOVERED'' = Inr (space', effs) \<and>
      map_of (devices space') ''D1'' = Some dev' \<and>
      attributes dev' ''door_opened'' = Some (ABool False)) \<and>
   (\<exists>space' effs dev'.
      handle_tamper_event ex_deps ex_space ''tamperopened'' (JStr []) (JStr ''D1'')
        ''RECOVERED'' = Inr (space', effs) \<and>
      map_of (devices space') ''D1'' = Some dev' \<and>
      attributes dev' ''tampered'' = Some (ABool False))"
proof -
  have d: "map_of (DOOR_EVENTS ex_deps) ''dooropened'' = Some (''door_opened'', True)"
    by (simp add: ex_deps_sel)
  have t: "map_of (TAMPER_EVENTS ex_deps) ''tamperopened'' = Some (''tamper_opened'', True)"
    by (simp add: ex_deps_sel)
  have door: "\<exists>space' effs dev'.
      handle_door_event ex_deps (ex_clock 1000 ''T1000'') ex_space ''dooropened'' (JStr [])
        (JStr ''D1'') ''RECOVERED'' = Inr (space', effs) \<and>
      map_of (devices space') ''D1'' = Some dev' \<and>
      attributes dev' ''door_opened'' = Some (ABool False)"
    using door_tamper_transition
            [OF find_device_ex, of ex_deps "''dooropened''" "''door_opened''" True
               "ex_clock 1000 ''T1000''" "''RECOVERED''"] d
    by auto
  have tamper: "\<exists>space' effs dev'.
      handle_tamper_event ex_deps ex_space ''tamperopened'' (JStr []) (JStr ''D1'')
        ''RECOVERED'' = Inr (space', effs) \<and>
      map_of (devices space') ''D1'' = Some dev' \<and>
      attributes dev' ''tampered'' = Some (ABool False)"
    using door_tamper_transition
            [OF find_device_ex, of ex_deps "''tamperopened''" "''tamper_opened''" True
               "ex_clock 1000 ''T1000''" "''RECOVERED''"] t
    by auto
  show ?thesis
    using find_device_ex d t door tamper by blast
qed

subsection \<open>Device resolution\<close>

lemma find_key_map_of: "find (\<lambda>(k, d). k = i) xs = map_option (Pair i) (map_of xs i)"
  by (induction xs) auto

text \<open>
  C4, as stated, at an input where it fails: an event without a source name and with an
  unknown id, in a space holding a device whose name is empty. The three rules as stated
  resolve to that device by the name rule; \<^verbatim>\<open>_find_device\<close> returns nothing, because it
  tries the name rule only for a non-empty source name.
\<close>

theorem find_device_empty_name_counterexample:
  "find_device unnamed_space (JStr []) (JStr ''X9'') = Inr None \<and>
   map_option fst (resolve_spec unnamed_space [] ''X9'') = Some ''D2''"
  by (simp add: find_device_def resolve_spec_def unnamed_space_def)

text \<open>
  C4, amended. On strings, \<^verbatim>\<open>_find_device\<close> is the three rules in order, first match
  winning: exact id; the suffix rule, only for a source id of exactly 8 characters, against
  a device id of exactly 16 characters ending with it; exact name. The two id rules are
  tried only for a non-empty source id, the name rule only for a non-empty source name;
  it returns nothing when none matches.
\<close>

theorem find_device_resolution_order:
  "find_device space (JStr source_name) (JStr source_id) =
   Inr (resolve_guarded space source_name source_id)"
proof (cases "source_id = []")
  case True
  then show ?thesis
    by (simp add: find_device_def resolve_guarded_def)
next
  case False
  show ?thesis
  proof (cases "map_of (devices space) source_id")
    case (Some d)
    then show ?thesis
      using False by (simp add: find_device_def resolve_guarded_def find_key_map_of)
  next
    case None
    then show ?thesis
      using False
      by (simp add: find_device_def resolve_guarded_def find_key_map_of split: option.splits)
  qed
qed

lemma perm_distinct_keys:
  assumes "distinct (map fst xs)" and "mset ys = mset xs"
  shows "distinct (map fst ys)"
proof -
  have "mset (map fst ys) = mset (map fst xs)"
    using assms(2) by simp
  then show ?thesis
    using assms(1) mset_eq_imp_distinct_iff by blast
qed

lemma perm_map_of:
  assumes "distinct (map fst xs)" and "mset ys = mset xs"
  shows "map_of ys = map_of xs"
proof -
  have "set ys = set xs"
    using assms(2) by (rule mset_eq_setD)
  then show ?thesis
    using assms perm_distinct_keys[OF assms] map_of_inject_set by blast
qed

lemma find_unique:
  assumes "set ys = set xs"
    and "\<And>x y. x \<in> set xs \<Longrightarrow> y \<in> set xs \<Longrightarrow> P x \<Longrightarrow> P y \<Longrightarrow> x = y"
  shows "find P ys = find P xs"
proof (cases "find P xs")
  case None
  then have "\<not> (\<exists>x. x \<in> set xs \<and> P x)"
    by (simp add: find_None_iff)
  then have "find P ys = None"
    using assms(1) by (simp add: find_None_iff)
  then show ?thesis using None by simp
next
  case (Some x)
  then have x: "x \<in> set xs \<and> P x"
    by (rule find_in_set)
  then have "\<exists>y. y \<in> set ys \<and> P y"
    using assms(1) by blast
  then obtain y where y: "find P ys = Some y"
    by (cases "find P ys") (auto simp: find_None_iff)
  then have "y \<in> set ys \<and> P y"
    by (rule find_in_set)
  then have "y = x"
    using x assms by blast
  then show ?thesis
    using Some y by simp
qed

text \<open>
  C5, amended. For a space whose device mapping has distinct keys, and any permutation of
  the mapping's items: resolution gives the same result in both orders whenever the exact
  id rule decides, and also whenever neither id rule applies or matches and at most one
  device of the space has the source name.
\<close>

theorem find_device_order_independent:
  assumes keys: "distinct (map fst (devices sp))"
    and perm: "mset (devices sp') = mset (devices sp)"
  shows "(i \<noteq> [] \<and> i \<in> fst ` set (devices sp) \<longrightarrow>
            find_device sp' (JStr n) (JStr i) = find_device sp (JStr n) (JStr i)) \<and>
         ((i = [] \<or> i \<notin> fst ` set (devices sp)) \<and>
          (length i \<noteq> 8 \<or>
             (\<forall>(k, d) \<in> set (devices sp). \<not> (length (dev_id d) = 16 \<and> endswith (dev_id d) i))) \<and>
          (\<forall>(k, d) \<in> set (devices sp). \<forall>(k', d') \<in> set (devices sp).
              dev_name d = n \<and> dev_name d' = n \<longrightarrow> k = k') \<longrightarrow>
            find_device sp' (JStr n) (JStr i) = find_device sp (JStr n) (JStr i))"
proof (intro conjI impI)
  have m: "map_of (devices sp') = map_of (devices sp)"
    using keys perm by (rule perm_map_of)
  have s: "set (devices sp') = set (devices sp)"
    using perm by (rule mset_eq_setD)
  {
    assume e: "i \<noteq> [] \<and> i \<in> fst ` set (devices sp)"
    then obtain d where "map_of (devices sp) i = Some d"
      by (metis domD domI dom_map_of_conv_image_fst)
    then show "find_device sp' (JStr n) (JStr i) = find_device sp (JStr n) (JStr i)"
      using m e by (simp add: find_device_def)
  }
  {
    assume h: "(i = [] \<or> i \<notin> fst ` set (devices sp)) \<and>
          (length i \<noteq> 8 \<or>
             (\<forall>(k, d) \<in> set (devices sp). \<not> (length (dev_id d) = 16 \<and> endswith (dev_id d) i))) \<and>
          (\<forall>(k, d) \<in> set (devices sp). \<forall>(k', d') \<in> set (devices sp).
              dev_name d = n \<and> dev_name d' = n \<longrightarrow> k = k')"
    have ex: "i \<noteq> [] \<Longrightarrow> map_of (devices sp) i = None"
      using h by (metis domIff dom_map_of_conv_image_fst)
    have suf: "length i = 8 \<Longrightarrow>
               find (\<lambda>(k, d). length (dev_id d) = 16 \<and> endswith (dev_id d) i) (devices sp) = None \<and>
               find (\<lambda>(k, d). length (dev_id d) = 16 \<and> endswith (dev_id d) i) (devices sp') = None"
      using h s by (auto simp: find_None_iff)
    have uniq: "\<And>x y. x \<in> set (devices sp) \<Longrightarrow> y \<in> set (devices sp) \<Longrightarrow>
                 (\<lambda>(k, d). JStr (dev_name d) = JStr n) x \<Longrightarrow>
                 (\<lambda>(k, d). JStr (dev_name d) = JStr n) y \<Longrightarrow> x = y"
    proof -
      fix x y
      assume a: "x \<in> set (devices sp)" "y \<in> set (devices sp)"
        "(\<lambda>(k, d). JStr (dev_name d) = JStr n) x" "(\<lambda>(k, d). JStr (dev_name d) = JStr n) y"
      obtain k d k' d' where xy: "x = (k, d)" "y = (k', d')"
        by (cases x, cases y) auto
      have "k = k'"
        using h a xy by fastforce
      then show "x = y"
        using a(1,2) xy keys by (metis eq_key_imp_eq_value)
    qed
    have nm: "find (\<lambda>(k, d). JStr (dev_name d) = JStr n) (devices sp') =
              find (\<lambda>(k, d). JStr (dev_name d) = JStr n) (devices sp)"
      using s uniq by (rule find_unique)
    show "find_device sp' (JStr n) (JStr i) = find_device sp (JStr n) (JStr i)"
      using m ex suf nm by (simp add: find_device_def)
  }
qed

theorem find_device_order_independent_witness:
  "distinct (map fst (devices pair_space)) \<and>
   mset (devices pair_space_rev) = mset (devices pair_space) \<and>
   find_device pair_space_rev (JStr ''x'') (JStr ''D1'') =
     find_device pair_space (JStr ''x'') (JStr ''D1'') \<and>
   find_device pair_space (JStr ''x'') (JStr ''D1'') = Inr (Some (''D1'', ex_device)) \<and>
   find_device pair_space_rev (JStr ''Door'') (JStr []) =
     find_device pair_space (JStr ''Door'') (JStr []) \<and>
   find_device pair_space (JStr ''Door'') (JStr []) = Inr (Some (''A1'', twin_a))"
proof -
  have k: "distinct (map fst (devices pair_space))"
    by (simp add: pair_space_def)
  have p: "mset (devices pair_space_rev) = mset (devices pair_space)"
    by (simp add: pair_space_rev_def)
  have e: "find_device pair_space_rev (JStr ''x'') (JStr ''D1'') =
           find_device pair_space (JStr ''x'') (JStr ''D1'')"
    using find_device_order_independent[OF k p, where i = "''D1''" and n = "''x''"]
    by (simp add: pair_space_def)
  have n: "find_device pair_space_rev (JStr ''Door'') (JStr []) =
           find_device pair_space (JStr ''Door'') (JStr [])"
    using find_device_order_independent[OF k p, where i = "[]" and n = "''Door''"]
    by (simp add: pair_space_def twin_a_def ex_device_def)
  have v: "find_device pair_space (JStr ''x'') (JStr ''D1'') = Inr (Some (''D1'', ex_device))"
    by (simp add: find_device_def pair_space_def)
  have w: "find_device pair_space (JStr ''Door'') (JStr []) = Inr (Some (''A1'', twin_a))"
    by (simp add: find_device_def pair_space_def twin_a_def)
  show ?thesis
    using k p e n v w by blast
qed

text \<open>
  C5, as stated, at an input where it fails: two devices of the same name, resolved by the
  name rule. The two iteration orders of the mapping give two different devices.
\<close>

theorem find_device_name_order_counterexample:
  "devices twin_space_rev = rev (devices twin_space) \<and>
   find_device twin_space (JStr ''Door'') (JStr []) = Inr (Some (''A1'', twin_a)) \<and>
   find_device twin_space_rev (JStr ''Door'') (JStr []) = Inr (Some (''B1'', twin_b)) \<and>
   (''A1'', twin_a) \<noteq> (''B1'', twin_b)"
  by (simp add: find_device_def twin_space_rev_def twin_space_def twin_a_def twin_b_def)

subsection \<open>The steps of the event handler\<close>

lemma handle_event_raise:
  "extract_event deps event_data = Inl e \<Longrightarrow>
   handle_event deps clk st event_data = (None, st, [Log ERROR ''SSE event processing error: %s''])"
  by (simp add: handle_event_def handle_event_body_def)

lemma handle_event_missing:
  "extract_event deps event_data = Inr None \<Longrightarrow>
   handle_event deps clk st event_data =
     (None, st, [Log DEBUG ''SSE event missing eventTag or hubId: %s''])"
  by (simp add: handle_event_def handle_event_body_def)

lemma handle_event_extracted:
  "extract_event deps event_data = Inr (Some ev) \<Longrightarrow>
   handle_event deps clk st event_data =
     (case process_event deps clk st ev of
        (x, st', effs) \<Rightarrow>
          (None, st',
           Log INFO ''SSE event: type=%s, tag=%s, code=%s, source=%s (%s), id=%s, transition=%s''
             # effs @ (case x of Some err \<Rightarrow> [Log ERROR ''SSE event processing error: %s'']
                       | None \<Rightarrow> [])))"
  by (simp add: handle_event_def handle_event_body_def split: prod.splits option.splits)

lemma process_event_duplicate:
  "now clk - last_time st (event_key deps ev) < dedup_window st \<Longrightarrow>
   process_event deps clk st ev =
     (None, st, [Log DEBUG ''SSE event ignored (duplicate): %s, last seen %.1fs ago''])"
  by (simp add: process_event_def)

lemma find_space_remember: "find_space (remember st key t) hub = find_space st hub"
  by (simp add: find_space_def remember_def)

lemma process_event_unknown_hub:
  "\<not> now clk - last_time st (event_key deps ev) < dedup_window st \<Longrightarrow>
   find_space st (ev_hub_id ev) = None \<Longrightarrow>
   process_event deps clk st ev =
     (None, remember st (event_key deps ev) (now clk), [Log WARNING ''SSE: Unknown hub %s''])"
  by (simp add: process_event_def lookup_and_dispatch_def find_space_remember)

lemma process_event_dispatch:
  "\<not> now clk - last_time st (event_key deps ev) < dedup_window st \<Longrightarrow>
   find_space st (ev_hub_id ev) = Some (sk, space) \<Longrightarrow>
   process_event deps clk st ev =
     dispatch deps clk (remember st (event_key deps ev) (now clk)) sk space ev"
  by (simp add: process_event_def lookup_and_dispatch_def find_space_remember)

subsection \<open>Payloads without tag or hub\<close>

lemma extract_event_missing:
  assumes "field (payload_event event_data) ''eventTag'' = None \<or>
           field (payload_event event_data) ''eventTag'' = Some (JStr []) \<or>
           field (payload_event event_data) ''hubId'' = None"
  shows "extract_event deps event_data = Inr None \<or> (\<exists>e. extract_event deps event_data = Inl e)"
proof (cases "payload_event event_data")
  case (JObj event)
  then have ev: "dict_get event_data ''event'' (JObj event_data) = JObj event"
    by (simp add: payload_event_def)
  show ?thesis
  proof (cases "dict_get event ''eventTag'' (JStr [])")
    case (JStr tag_raw)
    have "lower tag_raw = [] \<or> \<not> truthy (dict_get event ''hubId'' JNull)"
      using assms JObj JStr by (auto simp: dict_get_def lower_def split: option.splits)
    then show ?thesis
      using ev JStr by (simp add: extract_event_def)
  qed (simp_all add: extract_event_def ev)
qed (simp_all add: extract_event_def payload_event_def)

text \<open>
  C8. For every payload, nested under \<open>event\<close> or flat, whose event object has no
  \<open>eventTag\<close> or an empty one, or has no \<open>hubId\<close>: the handler returns without an
  exception, leaves the whole state (spaces, protection record, deduplication cache) as
  it was, and does nothing but write one log line; nothing is dispatched and no
  notification is made.
\<close>

theorem missing_tag_or_hub_dropped:
  assumes "field (payload_event event_data) ''eventTag'' = None \<or>
           field (payload_event event_data) ''eventTag'' = Some (JStr []) \<or>
           field (payload_event event_data) ''hubId'' = None"
  shows "handle_event deps clk st event_data =
           (None, st, [Log DEBUG ''SSE event missing eventTag or hubId: %s'']) \<or>
         handle_event deps clk st event_data =
           (None, st, [Log ERROR ''SSE event processing error: %s''])"
  using extract_event_missing[OF assms, of deps] handle_event_missing handle_event_raise
  by blast

theorem missing_tag_or_hub_dropped_witness:
  "field (payload_event [(''hubId'', JStr ''H1'')]) ''eventTag'' = None \<and>
   handle_event ex_deps (ex_clock 1000 ''T1000'') ex_state [(''hubId'', JStr ''H1'')] =
     (None, ex_state, [Log DEBUG ''SSE event missing eventTag or hubId: %s'']) \<and>
   field (payload_event [(''event'', JObj [(''eventTag'', JStr ''Arm'')])]) ''hubId'' = None \<and>
   handle_event ex_deps (ex_clock 1000 ''T1000'') ex_state
       [(''event'', JObj [(''eventTag'', JStr ''Arm'')])] =
     (None, ex_state, [Log DEBUG ''SSE event missing eventTag or hubId: %s''])"
proof -
  have a: "field (payload_event [(''hubId'', JStr ''H1'')]) ''eventTag'' = None"
    by (simp add: payload_event_def dict_get_def)
  have b: "field (payload_event [(''event'', JObj [(''eventTag'', JStr ''Arm'')])]) ''hubId'' = None"
    by (simp add: payload_event_def dict_get_def)
  have a': "extract_event ex_deps [(''hubId'', JStr ''H1'')] = Inr None"
    by (simp add: extract_event_def dict_get_def lower_def)
  have b': "extract_event ex_deps [(''event'', JObj [(''eventTag'', JStr ''Arm'')])] = Inr None"
    by (simp add: extract_event_def dict_get_def lower_def)
  have 1: "handle_event ex_deps (ex_clock 1000 ''T1000'') ex_state [(''hubId'', JStr ''H1'')] =
     (None, ex_state, [Log DEBUG ''SSE event missing eventTag or hubId: %s''])"
    using missing_tag_or_hub_dropped[of "[(''hubId'', JStr ''H1'')]" ex_deps
            "ex_clock 1000 ''T1000''" ex_state] a a'
    by (simp add: handle_event_def handle_event_body_def)
  have 2: "handle_event ex_deps (ex_clock 1000 ''T1000'') ex_state
       [(''event'', JObj [(''eventTag'', JStr ''Arm'')])] =
     (None, ex_state, [Log DEBUG ''SSE event missing eventTag or hubId: %s''])"
    using missing_tag_or_hub_dropped[of "[(''event'', JObj [(''eventTag'', JStr ''Arm'')])]" ex_deps
            "ex_clock 1000 ''T1000''" ex_state] b b'
    by (simp add: handle_event_def handle_event_body_def)
  show ?thesis using a b 1 2 by blast
qed

subsection \<open>Exceptions stay inside the handler\<close>

lemma handle_event_no_exception: "fst (handle_event deps clk st event_data) = None"
  by (simp add: handle_event_def split: prod.splits option.splits)

lemma handle_event_caught:
  assumes "fst (handle_event_body deps clk st event_data) = Some e"
  shows "handle_event deps clk st event_data =
         (None, state_of (handle_event_body deps clk st event_data),
          effects_of (handle_event_body deps clk st event_data) @
            [Log ERROR ''SSE event processing error: %s''])"
  using assms
  by (cases "handle_event_body deps clk st event_data")
     (simp add: handle_event_def state_of_def effects_of_def)

lemma deliver_all_complete: "\<exists>st' effs. deliver_all deps st evs = (None, st', effs, [])"
proof (induction evs arbitrary: st)
  case Nil
  show ?case by simp
next
  case (Cons a evs)
  obtain clk event_data where a: "a = (clk, event_data)"
    by (cases a)
  obtain st1 effs1 where h: "handle_event deps clk st event_data = (None, st1, effs1)"
    using handle_event_no_exception[of deps clk st event_data]
    by (cases "handle_event deps clk st event_data") auto
  obtain st2 effs2 where d: "deliver_all deps st1 evs = (None, st2, effs2, [])"
    using Cons.IH by blast
  show ?case
    using a h d by simp
qed

subsection \<open>The door payload on the example installation\<close>

lemma run_door_first:
  assumes "5 \<le> t"
  shows "handle_event ex_deps (ex_clock t stamp) ex_state ex_door_payload =
         (None, ex_door_state t stamp,
          [Log INFO ''SSE event: type=%s, tag=%s, code=%s, source=%s (%s), id=%s, transition=%s'',
           Log INFO ''SSE instant: %s -> %s'', Set_updated_data])"
proof -
  have k: "event_key ex_deps ex_door_event = ''D1:dooropened:TRIGGERED''"
    by (simp add: event_key_def ex_door_event_def)
  have pass: "\<not> now (ex_clock t stamp) - last_time ex_state (event_key ex_deps ex_door_event)
                < dedup_window ex_state"
    using assms by (simp add: last_time_def ex_state_def init_state_def ex_clock_def)
  have sp: "find_space ex_state (ev_hub_id ex_door_event) = Some (''S1'', ex_space)"
    by (simp add: find_space_def ex_state_def init_state_def ex_space_def ex_door_event_def)
  have r: "remember ex_state ''D1:dooropened:TRIGGERED'' t =
           ex_state\<lparr>recent_events := [''D1:dooropened:TRIGGERED'' \<mapsto> t]\<rparr>"
    by (simp add: remember_def prune_def ex_state_def init_state_def fun_eq_iff)
  have d: "dispatch ex_deps (ex_clock t stamp)
             (ex_state\<lparr>recent_events := [''D1:dooropened:TRIGGERED'' \<mapsto> t]\<rparr>) ''S1'' ex_space
             ex_door_event =
           (None, ex_door_state t stamp, [Log INFO ''SSE instant: %s -> %s'', Set_updated_data])"
    by (simp add: dispatch_def ex_deps_sel Let_def after_handler_def handle_door_event_def
        find_device_def put_device_def put_space_def set_attr_def ex_device_def ex_space_def
        ex_door_event_def ex_state_def init_state_def ex_door_state_def ex_clock_def)
  have n: "now (ex_clock t stamp) = t"
    by (simp add: ex_clock_def)
  have pe: "process_event ex_deps (ex_clock t stamp) ex_state ex_door_event =
            (None, ex_door_state t stamp, [Log INFO ''SSE instant: %s -> %s'', Set_updated_data])"
    by (simp only: process_event_dispatch[OF pass sp] k n r d)
  show ?thesis
    by (simp add: handle_event_extracted[OF extract_ex_door] pe)
qed


lemma run_door_again_duplicate:
  assumes "t - t0 < 5"
  shows "handle_event ex_deps (ex_clock t stamp) (ex_door_state t0 s0) ex_door_payload =
         (None, ex_door_state t0 s0,
          [Log INFO ''SSE event: type=%s, tag=%s, code=%s, source=%s (%s), id=%s, transition=%s'',
           Log DEBUG ''SSE event ignored (duplicate): %s, last seen %.1fs ago''])"
proof -
  have dup: "now (ex_clock t stamp) - last_time (ex_door_state t0 s0) (event_key ex_deps ex_door_event)
                < dedup_window (ex_door_state t0 s0)"
    using assms
    by (simp add: last_time_def ex_door_state_def ex_clock_def event_key_def ex_door_event_def)
  show ?thesis
    by (simp add: handle_event_extracted[OF extract_ex_door] process_event_duplicate[OF dup])
qed

lemma run_door_again_processed:
  assumes "5 \<le> t - t0"
  shows "handle_event ex_deps (ex_clock t stamp) (ex_door_state t0 s0) ex_door_payload =
         (None, ex_door_state t stamp,
          [Log INFO ''SSE event: type=%s, tag=%s, code=%s, source=%s (%s), id=%s, transition=%s'',
           Log INFO ''SSE instant: %s -> %s'', Set_updated_data])"
proof -
  let ?st = "ex_door_state t0 s0"
  let ?sp = "\<lparr>hub_id = ''H1'', space_name = ''Home'', security_state = ''armed'',
           devices =
             [(''D1'',
               \<lparr>dev_id = ''D1'', dev_name = ''Front door'', online = True,
                attributes = [''door_opened'' \<mapsto> ABool True,
                              ''door_opened_at'' \<mapsto> AStr s0]\<rparr>)]\<rparr>"
  have k: "event_key ex_deps ex_door_event = ''D1:dooropened:TRIGGERED''"
    by (simp add: event_key_def ex_door_event_def)
  have pass: "\<not> now (ex_clock t stamp) - last_time ?st (event_key ex_deps ex_door_event)
                < dedup_window ?st"
    using assms by (simp add: last_time_def ex_door_state_def ex_clock_def k)
  have sp: "find_space ?st (ev_hub_id ex_door_event) = Some (''S1'', ?sp)"
    by (simp add: find_space_def ex_door_state_def ex_door_event_def)
  have r: "remember ?st ''D1:dooropened:TRIGGERED'' t =
           ?st\<lparr>recent_events := [''D1:dooropened:TRIGGERED'' \<mapsto> t]\<rparr>"
    by (simp add: remember_def prune_def ex_door_state_def fun_eq_iff)
  have at: "[''door_opened'' \<mapsto> ABool True, ''door_opened_at'' \<mapsto> AStr s0,
             ''door_opened'' \<mapsto> ABool True, ''door_opened_at'' \<mapsto> AStr stamp] =
            [''door_opened'' \<mapsto> ABool True, ''door_opened_at'' \<mapsto> AStr stamp]"
    by (simp add: fun_eq_iff)
  have d: "dispatch ex_deps (ex_clock t stamp)
             (?st\<lparr>recent_events := [''D1:dooropened:TRIGGERED'' \<mapsto> t]\<rparr>) ''S1'' ?sp
             ex_door_event =
           (None, ex_door_state t stamp, [Log INFO ''SSE instant: %s -> %s'', Set_updated_data])"
    using at
    by (simp add: dispatch_def ex_deps_sel Let_def after_handler_def handle_door_event_def
        find_device_def put_device_def put_space_def set_attr_def
        ex_door_event_def ex_door_state_def ex_clock_def)
  have n: "now (ex_clock t stamp) = t"
    by (simp add: ex_clock_def)
  have pe: "process_event ex_deps (ex_clock t stamp) ?st ex_door_event =
            (None, ex_door_state t stamp, [Log INFO ''SSE instant: %s -> %s'', Set_updated_data])"
    by (simp only: process_event_dispatch[OF pass sp] k n r d)
  show ?thesis
    by (simp add: handle_event_extracted[OF extract_ex_door] pe)
qed

subsection \<open>Isolation of one event from the next\<close>

text \<open>
  C9. For every payload, state and clock, no exception leaves \<^verbatim>\<open>_handle_event\<close>: an
  exception raised in the body of its \<^verbatim>\<open>try\<close> block is caught, an error line is
  logged, and the handler returns with the state reached when the exception was raised.
  Hence a delivery of any sequence of payloads calls the handler on every one of them:
  none is left undelivered because an earlier one was malformed or unresolvable.
\<close>

theorem handle_event_isolates_exceptions:
  "fst (handle_event deps clk st event_data) = None \<and>
   (\<forall>e. fst (handle_event_body deps clk st event_data) = Some e \<longrightarrow>
        handle_event deps clk st event_data =
          (None, state_of (handle_event_body deps clk st event_data),
           effects_of (handle_event_body deps clk st event_data) @
             [Log ERROR ''SSE event processing error: %s''])) \<and>
   (\<exists>st' effs. deliver_all deps st evs = (None, st', effs, []))"
  using handle_event_no_exception handle_event_caught deliver_all_complete by blast

theorem handle_event_isolates_exceptions_witness:
  "fst (handle_event_body ex_deps (ex_clock 1000 ''T1000'') ex_state ex_bad_payload) =
     Some AttributeError \<and>
   handle_event ex_deps (ex_clock 1000 ''T1000'') ex_state ex_bad_payload =
     (None, ex_state, [Log ERROR ''SSE event processing error: %s'']) \<and>
   fst (handle_event_body ex_deps (ex_clock 1000 ''T1000'') ex_state ex_numeric_id_payload) =
     Some TypeError \<and>
   handle_event ex_deps (ex_clock 1000 ''T1000'') ex_state ex_numeric_id_payload =
     (None, ex_state\<lparr>recent_events := [''7:dooropened:TRIGGERED'' \<mapsto> 1000]\<rparr>,
      [Log INFO ''SSE event: type=%s, tag=%s, code=%s, source=%s (%s), id=%s, transition=%s'',
       Log ERROR ''SSE event processing error: %s'']) \<and>
   (\<exists>effs. deliver_all ex_deps ex_state
             [(ex_clock 1000 ''T1000'', ex_bad_payload), (ex_clock 1001 ''T1001'', ex_door_payload)] =
           (None, ex_door_state 1001 ''T1001'', effs, []))"
proof -
  have b: "handle_event_body ex_deps (ex_clock 1000 ''T1000'') ex_state ex_bad_payload =
           (Some AttributeError, ex_state, [])"
    by (simp add: handle_event_body_def extract_event_def ex_bad_payload_def dict_get_def)
  have h: "handle_event ex_deps (ex_clock 1000 ''T1000'') ex_state ex_bad_payload =
           (None, ex_state, [Log ERROR ''SSE event processing error: %s''])"
    using handle_event_isolates_exceptions
            [of ex_deps "ex_clock 1000 ''T1000''" ex_state ex_bad_payload "[]"] b
    by (simp add: state_of_def effects_of_def)
  have k: "event_key ex_deps ex_numeric_id_event = ''7:dooropened:TRIGGERED''"
    by (simp add: event_key_def ex_numeric_id_event_def ex_deps_sel ex_py_str_7)
  have pass: "\<not> now (ex_clock 1000 ''T1000'')
                 - last_time ex_state (event_key ex_deps ex_numeric_id_event)
               < dedup_window ex_state"
    by (simp add: last_time_def ex_state_def init_state_def ex_clock_def)
  have sp: "find_space ex_state (ev_hub_id ex_numeric_id_event) = Some (''S1'', ex_space)"
    by (simp add: find_space_def ex_state_def init_state_def ex_space_def ex_numeric_id_event_def)
  have n: "now (ex_clock 1000 ''T1000'') = 1000"
    by (simp add: ex_clock_def)
  have r: "remember ex_state ''7:dooropened:TRIGGERED'' 1000 =
           ex_state\<lparr>recent_events := [''7:dooropened:TRIGGERED'' \<mapsto> 1000]\<rparr>"
    by (simp add: remember_def prune_def ex_state_def init_state_def fun_eq_iff)
  have d: "dispatch ex_deps (ex_clock 1000 ''T1000'')
             (ex_state\<lparr>recent_events := [''7:dooropened:TRIGGERED'' \<mapsto> 1000]\<rparr>) ''S1''
             ex_space ex_numeric_id_event =
           (Some TypeError,
            ex_state\<lparr>recent_events := [''7:dooropened:TRIGGERED'' \<mapsto> 1000]\<rparr>, [])"
    by (simp add: dispatch_def ex_deps_sel Let_def after_handler_def handle_door_event_def
        find_device_def ex_numeric_id_event_def)
  have pe: "process_event ex_deps (ex_clock 1000 ''T1000'') ex_state ex_numeric_id_event =
            (Some TypeError,
             ex_state\<lparr>recent_events := [''7:dooropened:TRIGGERED'' \<mapsto> 1000]\<rparr>, [])"
    by (simp only: process_event_dispatch[OF pass sp] k n r d)
  have b2: "handle_event_body ex_deps (ex_clock 1000 ''T1000'') ex_state ex_numeric_id_payload =
            (Some TypeError,
             ex_state\<lparr>recent_events := [''7:dooropened:TRIGGERED'' \<mapsto> 1000]\<rparr>,
             [Log INFO ''SSE event: type=%s, tag=%s, code=%s, source=%s (%s), id=%s, transition=%s''])"
    by (simp add: handle_event_body_def extract_ex_numeric_id pe)
  have h2: "handle_event ex_deps (ex_clock 1000 ''T1000'') ex_state ex_numeric_id_payload =
     (None, ex_state\<lparr>recent_events := [''7:dooropened:TRIGGERED'' \<mapsto> 1000]\<rparr>,
      [Log INFO ''SSE event: type=%s, tag=%s, code=%s, source=%s (%s), id=%s, transition=%s'',
       Log ERROR ''SSE event processing error: %s''])"
    using handle_event_isolates_exceptions
            [of ex_deps "ex_clock 1000 ''T1000''" ex_state ex_numeric_id_payload "[]"] b2
    by (simp add: state_of_def effects_of_def)
  have d: "\<exists>effs. deliver_all ex_deps ex_state
             [(ex_clock 1000 ''T1000'', ex_bad_payload), (ex_clock 1001 ''T1001'', ex_door_payload)] =
           (None, ex_door_state 1001 ''T1001'', effs, [])"
    by (simp add: h run_door_first)
  show ?thesis
    using b h b2 h2 d by simp
qed

subsection \<open>Security events and their notification\<close>

lemma dispatch_security:
  assumes "map_of (EVENT_TAG_TO_STATE deps) (ev_tag ev) = Some new_state"
  shows "dispatch deps clk st sk space ev =
         (case handle_security_event deps clk (last_state_update st) space (ev_tag ev)
                 (ev_source_name ev) of
            (lsu', space', effs) \<Rightarrow>
              (None, put_space (st\<lparr>last_state_update := lsu'\<rparr>) sk space',
               effs @ [Set_updated_data]))"
  using assms by (simp add: dispatch_def Let_def)

lemma handle_security_event_result:
  assumes "map_of (EVENT_TAG_TO_STATE deps) tag = Some new_state"
  shows "handle_security_event deps clk lsu space tag source_name =
         (if security_state space \<noteq> new_state \<and> tag \<noteq> ''grouparm'' \<and> tag \<noteq> ''groupdisarm''
          then lsu(hub_id space \<mapsto> now_mark clk) else lsu,
          if security_state space \<noteq> new_state \<and> tag \<noteq> ''grouparm'' \<and> tag \<noteq> ''groupdisarm''
          then space\<lparr>security_state := new_state\<rparr> else space,
          [Log INFO ''SSE security: tag=%s, old=%s, new=%s, changed=%s''] @
          (if tag = ''grouparm'' \<or> tag = ''groupdisarm''
           then [Log DEBUG ''SSE: Group event %s detected, scheduling refresh for actual state'',
                 Request_refresh]
           else []) @
          [Log INFO ''SSE instant: %s -> %s par %s (state_changed=%s)'',
           Create_notification new_state
             (if get_pending_ha_action deps (hub_id space) then JStr ''Home Assistant''
              else source_name)
             (space_name space)])"
  using assms by (simp add: handle_security_event_def Let_def)

lemma handle_security_event_notification:
  assumes "map_of (EVENT_TAG_TO_STATE deps) tag = Some new_state"
  shows "filter is_notification
           (snd (snd (handle_security_event deps clk lsu space tag source_name))) =
         [Create_notification new_state
            (if get_pending_ha_action deps (hub_id space) then JStr ''Home Assistant''
             else source_name)
            (space_name space)]"
  by (simp add: handle_security_event_result[OF assms])

text \<open>
  C7. A security event that is processed (its tag is in the security state table, it is
  no duplicate, its hub is known) creates exactly one notification, whether or not the
  space's security state differs from the mapped state. The notification carries the
  mapped state, the space's name, and as source name \<open>Home Assistant\<close> when a pending
  locally-issued command is recorded for the hub, the reported source name otherwise.
\<close>

theorem security_event_one_notification:
  assumes ex: "extract_event deps event_data = Inr (Some ev)"
    and pass: "\<not> now clk - last_time st (event_key deps ev) < dedup_window st"
    and sp: "find_space st (ev_hub_id ev) = Some (sk, space)"
    and tag: "map_of (EVENT_TAG_TO_STATE deps) (ev_tag ev) = Some new_state"
  shows "filter is_notification (effects_of (handle_event deps clk st event_data)) =
         [Create_notification new_state
            (if get_pending_ha_action deps (hub_id space) then JStr ''Home Assistant''
             else ev_source_name ev)
            (space_name space)]"
proof -
  obtain lsu' space' effs where
    h: "handle_security_event deps clk
          (last_state_update (remember st (event_key deps ev) (now clk))) space (ev_tag ev)
          (ev_source_name ev) = (lsu', space', effs)"
    by (metis prod_cases3)
  have f: "filter is_notification effs =
           [Create_notification new_state
              (if get_pending_ha_action deps (hub_id space) then JStr ''Home Assistant''
               else ev_source_name ev)
              (space_name space)]"
    using handle_security_event_notification[OF tag, of clk
            "last_state_update (remember st (event_key deps ev) (now clk))" space
            "ev_source_name ev"] h
    by simp
  have p: "process_event deps clk st ev =
           (None, put_space (remember st (event_key deps ev) (now clk)
                               \<lparr>last_state_update := lsu'\<rparr>) sk space',
            effs @ [Set_updated_data])"
    by (simp add: process_event_dispatch[OF pass sp] dispatch_security[OF tag] h)
  show ?thesis
    using f by (simp add: handle_event_extracted[OF ex] p effects_of_def)
qed

lemma extract_ex_disarm: "extract_event ex_deps ex_disarm_payload = Inr (Some ex_disarm_event)"
  by (simp add: extract_event_def ex_disarm_payload_def ex_disarm_event_def dict_get_def lower_def
      lower_char_def py_or_def ex_deps_sel ex_parse_event_code_def Let_def)

lemma extract_ex_arm2: "extract_event ex_deps ex_arm2_payload = Inr (Some ex_arm2_event)"
  by (simp add: extract_event_def ex_arm2_payload_def ex_arm2_event_def dict_get_def lower_def
      lower_char_def py_or_def ex_deps_sel ex_parse_event_code_def Let_def)

theorem security_event_one_notification_witness:
  "extract_event ex_deps ex_disarm_payload = Inr (Some ex_disarm_event) \<and>
   \<not> now (ex_clock 1000 ''T1000'') - last_time ex_state (event_key ex_deps ex_disarm_event)
       < dedup_window ex_state \<and>
   find_space ex_state (ev_hub_id ex_disarm_event) = Some (''S1'', ex_space) \<and>
   map_of (EVENT_TAG_TO_STATE ex_deps) (ev_tag ex_disarm_event) = Some ''disarmed'' \<and>
   filter is_notification
     (effects_of (handle_event ex_deps (ex_clock 1000 ''T1000'') ex_state ex_disarm_payload)) =
     [Create_notification ''disarmed'' (JStr ''Alice'') ''Home''] \<and>
   security_state ex_space2 = ''armed'' \<and>
   filter is_notification
     (effects_of (handle_event ex_deps (ex_clock 1000 ''T1000'') ex_state2 ex_arm2_payload)) =
     [Create_notification ''armed'' (JStr ''Home Assistant'') ''Office'']"
proof -
  have p1: "\<not> now (ex_clock 1000 ''T1000'') - last_time ex_state (event_key ex_deps ex_disarm_event)
              < dedup_window ex_state"
    by (simp add: ex_clock_def last_time_def ex_state_def init_state_def)
  have s1: "find_space ex_state (ev_hub_id ex_disarm_event) = Some (''S1'', ex_space)"
    by (simp add: find_space_def ex_state_def init_state_def ex_space_def ex_disarm_event_def)
  have t1: "map_of (EVENT_TAG_TO_STATE ex_deps) (ev_tag ex_disarm_event) = Some ''disarmed''"
    by (simp add: ex_deps_sel ex_disarm_event_def)
  have p2: "\<not> now (ex_clock 1000 ''T1000'') - last_time ex_state2 (event_key ex_deps ex_arm2_event)
              < dedup_window ex_state2"
    by (simp add: ex_clock_def last_time_def ex_state2_def init_state_def)
  have s2: "find_space ex_state2 (ev_hub_id ex_arm2_event) = Some (''S2'', ex_space2)"
    by (simp add: find_space_def ex_state2_def init_state_def ex_space_def ex_space2_def
        ex_arm2_event_def)
  have t2: "map_of (EVENT_TAG_TO_STATE ex_deps) (ev_tag ex_arm2_event) = Some ''armed''"
    by (simp add: ex_deps_sel ex_arm2_event_def)
  have n1: "filter is_notification
     (effects_of (handle_event ex_deps (ex_clock 1000 ''T1000'') ex_state ex_disarm_payload)) =
     [Create_notification ''disarmed'' (JStr ''Alice'') ''Home'']"
    using security_event_one_notification[OF extract_ex_disarm p1 s1 t1]
    by (simp add: ex_deps_sel ex_space_def ex_disarm_event_def)
  have n2: "filter is_notification
     (effects_of (handle_event ex_deps (ex_clock 1000 ''T1000'') ex_state2 ex_arm2_payload)) =
     [Create_notification ''armed'' (JStr ''Home Assistant'') ''Office'']"
    using security_event_one_notification[OF extract_ex_arm2 p2 s2 t2]
    by (simp add: ex_deps_sel ex_space2_def ex_arm2_event_def)
  have a: "security_state ex_space2 = ''armed''"
    by (simp add: ex_space2_def)
  show ?thesis
    using extract_ex_disarm p1 s1 t1 n1 a n2 by blast
qed

subsection \<open>What dispatch leaves alone\<close>

lemma after_handler_fields:
  "recent_events (fst (snd (after_handler st sk r))) = recent_events st"
  "dedup_window (fst (snd (after_handler st sk r))) = dedup_window st"
  "last_state_update (fst (snd (after_handler st sk r))) = last_state_update st"
  by (cases r; simp add: after_handler_def put_space_def split: prod.splits)+

lemma dispatch_keeps_cache:
  "recent_events (fst (snd (dispatch deps clk st sk space ev))) = recent_events st \<and>
   dedup_window (fst (snd (dispatch deps clk st sk space ev))) = dedup_window st"
  by (simp add: dispatch_def Let_def after_handler_fields put_space_def
      split: prod.splits sum.splits)

lemma dispatch_keeps_protection:
  assumes "map_of (EVENT_TAG_TO_STATE deps) (ev_tag ev) = None"
  shows "last_state_update (fst (snd (dispatch deps clk st sk space ev))) = last_state_update st"
  using assms
  by (simp add: dispatch_def Let_def after_handler_fields split: prod.splits sum.splits)

lemma remember_fields:
  "spaces (remember st key t) = spaces st"
  "last_state_update (remember st key t) = last_state_update st"
  "dedup_window (remember st key t) = dedup_window st"
  "recent_events (remember st key t) key = Some t"
  by (simp_all add: remember_def prune_def)

lemma lookup_and_dispatch_keeps_cache:
  "recent_events (fst (snd (lookup_and_dispatch deps clk st ev))) = recent_events st \<and>
   dedup_window (fst (snd (lookup_and_dispatch deps clk st ev))) = dedup_window st"
  by (simp add: lookup_and_dispatch_def dispatch_keeps_cache split: option.splits)

lemma lookup_and_dispatch_keeps_protection:
  assumes "map_of (EVENT_TAG_TO_STATE deps) (ev_tag ev) = None"
  shows "last_state_update (fst (snd (lookup_and_dispatch deps clk st ev))) = last_state_update st"
  by (simp add: lookup_and_dispatch_def dispatch_keeps_protection[OF assms] split: option.splits)

lemma handle_event_state:
  assumes "extract_event deps event_data = Inr (Some ev)"
  shows "state_of (handle_event deps clk st event_data) = state_of (process_event deps clk st ev)"
  by (simp add: handle_event_extracted[OF assms] state_of_def split: prod.splits)

lemma process_event_passed:
  assumes "\<not> now clk - last_time st (event_key deps ev) < dedup_window st"
  shows "process_event deps clk st ev =
         lookup_and_dispatch deps clk (remember st (event_key deps ev) (now clk)) ev"
  using assms by (simp add: process_event_def)

lemma handle_event_duplicate:
  assumes "extract_event deps event_data = Inr (Some ev)"
    and "now clk - last_time st (event_key deps ev) < dedup_window st"
  shows "handle_event deps clk st event_data =
         (None, st,
          [Log INFO ''SSE event: type=%s, tag=%s, code=%s, source=%s (%s), id=%s, transition=%s'',
           Log DEBUG ''SSE event ignored (duplicate): %s, last seen %.1fs ago''])"
  by (simp add: handle_event_extracted[OF assms(1)] process_event_duplicate[OF assms(2)])

lemma handle_event_passed:
  assumes ex: "extract_event deps event_data = Inr (Some ev)"
    and pass: "\<not> now clk - last_time st (event_key deps ev) < dedup_window st"
  shows "state_of (handle_event deps clk st event_data) =
           state_of (lookup_and_dispatch deps clk (remember st (event_key deps ev) (now clk)) ev)"
    and "recent_events (state_of (handle_event deps clk st event_data)) (event_key deps ev) =
           Some (now clk)"
    and "last_time (state_of (handle_event deps clk st event_data)) (event_key deps ev) = now clk"
    and "dedup_window (state_of (handle_event deps clk st event_data)) = dedup_window st"
proof -
  show s: "state_of (handle_event deps clk st event_data) =
           state_of (lookup_and_dispatch deps clk (remember st (event_key deps ev) (now clk)) ev)"
    by (simp add: handle_event_state[OF ex] process_event_passed[OF pass])
  show r: "recent_events (state_of (handle_event deps clk st event_data)) (event_key deps ev) =
           Some (now clk)"
    unfolding s by (simp add: state_of_def lookup_and_dispatch_keeps_cache remember_fields)
  show "last_time (state_of (handle_event deps clk st event_data)) (event_key deps ev) = now clk"
    by (simp add: last_time_def r)
  show "dedup_window (state_of (handle_event deps clk st event_data)) = dedup_window st"
    unfolding s by (simp add: state_of_def lookup_and_dispatch_keeps_cache remember_fields)
qed

subsection \<open>The cache across deliveries\<close>

lemma state_after_Nil: "state_after deps st [] = st"
  by (simp add: state_after_def)

lemma state_after_Cons:
  "state_after deps st ((clk, event_data) # rest) =
   state_after deps (state_of (handle_event deps clk st event_data)) rest"
proof -
  obtain st1 effs1 where h: "handle_event deps clk st event_data = (None, st1, effs1)"
    using handle_event_no_exception[of deps clk st event_data]
    by (cases "handle_event deps clk st event_data") auto
  show ?thesis
    by (simp add: state_after_def h state_of_def split: prod.splits)
qed

lemma prune_apply:
  "prune t (m(key \<mapsto> t)) k =
   (if k = key then Some t
    else (case m k of Some v \<Rightarrow> if t - v < 60 then Some v else None | None \<Rightarrow> None))"
  by (simp add: prune_def)

lemma cache_after_processed:
  assumes ex: "extract_event deps event_data = Inr (Some ev)"
    and pass: "\<not> now clk - last_time st (event_key deps ev) < dedup_window st"
  shows "recent_events (state_of (handle_event deps clk st event_data)) k =
         (if k = event_key deps ev then Some (now clk)
          else (case recent_events st k of
                  Some v \<Rightarrow> if now clk - v < 60 then Some v else None
                | None \<Rightarrow> None))"
  unfolding handle_event_passed(1)[OF ex pass]
  by (simp add: state_of_def lookup_and_dispatch_keeps_cache remember_def prune_apply)

lemma delivery_keeps_window:
  "dedup_window (state_of (handle_event deps clk st event_data)) = dedup_window st"
proof (cases "extract_event deps event_data")
  case (Inl e)
  then show ?thesis by (simp add: handle_event_raise state_of_def)
next
  case (Inr r)
  show ?thesis
  proof (cases r)
    case None
    then show ?thesis using Inr by (simp add: handle_event_missing state_of_def)
  next
    case (Some ev)
    then have ex: "extract_event deps event_data = Inr (Some ev)" using Inr by simp
    show ?thesis
    proof (cases "now clk - last_time st (event_key deps ev) < dedup_window st")
      case True
      then show ?thesis by (simp add: handle_event_duplicate[OF ex True] state_of_def)
    next
      case False
      then show ?thesis by (rule handle_event_passed(4)[OF ex])
    qed
  qed
qed

text \<open>One delivery that is no processed delivery of the key: what it does to the key's entry.\<close>

lemma other_delivery_entry:
  assumes "case extract_event deps event_data of
             Inr (Some ev) \<Rightarrow>
               event_key deps ev \<noteq> key \<or>
               now clk - last_time st (event_key deps ev) < dedup_window st
           | _ \<Rightarrow> True"
  shows "recent_events (state_of (handle_event deps clk st event_data)) key =
           recent_events st key \<or>
         (\<exists>v. recent_events st key = Some v \<and> \<not> now clk - v < 60 \<and>
              recent_events (state_of (handle_event deps clk st event_data)) key = None)"
proof (cases "extract_event deps event_data")
  case (Inl e)
  then show ?thesis by (simp add: handle_event_raise state_of_def)
next
  case (Inr r)
  show ?thesis
  proof (cases r)
    case None
    then show ?thesis using Inr by (simp add: handle_event_missing state_of_def)
  next
    case (Some ev)
    then have ex: "extract_event deps event_data = Inr (Some ev)" using Inr by simp
    show ?thesis
    proof (cases "now clk - last_time st (event_key deps ev) < dedup_window st")
      case True
      then show ?thesis by (simp add: handle_event_duplicate[OF ex True] state_of_def)
    next
      case False
      then have ne: "key \<noteq> event_key deps ev"
        using assms ex by auto
      show ?thesis
        using ne by (auto simp: cache_after_processed[OF ex False] split: option.splits)
    qed
  qed
qed

lemma others_keep_window:
  "dedup_window (state_after deps st others) = dedup_window st"
proof (induction others arbitrary: st)
  case Nil
  show ?case by (simp add: state_after_Nil)
next
  case (Cons a others)
  obtain clk event_data where a: "a = (clk, event_data)" by (cases a)
  show ?case
    by (simp add: a state_after_Cons Cons.IH delivery_keeps_window)
qed

lemma others_keep_entry:
  assumes "not_processed_for deps key st others"
    and "recent_events st key = Some t1"
    and "\<forall>(c, p) \<in> set others. now c - t1 < 60"
  shows "recent_events (state_after deps st others) key = Some t1"
  using assms
proof (induction others arbitrary: st)
  case Nil
  then show ?case by (simp add: state_after_Nil)
next
  case (Cons a others)
  obtain clk event_data where a: "a = (clk, event_data)" by (cases a)
  let ?st1 = "state_of (handle_event deps clk st event_data)"
  have c: "case extract_event deps event_data of
             Inr (Some ev) \<Rightarrow>
               event_key deps ev \<noteq> key \<or>
               now clk - last_time st (event_key deps ev) < dedup_window st
           | _ \<Rightarrow> True"
    and rest: "not_processed_for deps key ?st1 others"
    using Cons.prems(1) a by simp_all
  have young: "now clk - t1 < 60"
    using Cons.prems(3) a by simp
  have e: "recent_events ?st1 key = Some t1"
    using other_delivery_entry[OF c] Cons.prems(2) young by auto
  have "recent_events (state_after deps ?st1 others) key = Some t1"
    using Cons.IH[OF rest e] Cons.prems(3) by simp
  then show ?case
    by (simp add: a state_after_Cons)
qed

lemma others_weaken_entry:
  assumes "not_processed_for deps key st others"
    and "recent_events st key = Some t1 \<or> recent_events st key = None"
  shows "recent_events (state_after deps st others) key = Some t1 \<or>
         recent_events (state_after deps st others) key = None"
  using assms
proof (induction others arbitrary: st)
  case Nil
  then show ?case by (simp add: state_after_Nil)
next
  case (Cons a others)
  obtain clk event_data where a: "a = (clk, event_data)" by (cases a)
  let ?st1 = "state_of (handle_event deps clk st event_data)"
  have c: "case extract_event deps event_data of
             Inr (Some ev) \<Rightarrow>
               event_key deps ev \<noteq> key \<or>
               now clk - last_time st (event_key deps ev) < dedup_window st
           | _ \<Rightarrow> True"
    and rest: "not_processed_for deps key ?st1 others"
    using Cons.prems(1) a by simp_all
  have e: "recent_events ?st1 key = Some t1 \<or> recent_events ?st1 key = None"
    using other_delivery_entry[OF c] Cons.prems(2) by auto
  show ?case
    using Cons.IH[OF rest e] by (simp add: a state_after_Cons)
qed

lemma repeat_after_others_suppressed:
  assumes ex: "extract_event deps event_data = Inr (Some ev)"
    and entry: "recent_events st (event_key deps ev) = Some t1"
    and others: "not_processed_for deps (event_key deps ev) st others"
    and near: "now clk2 - t1 < dedup_window st"
    and ret: "dedup_window st \<le> 60"
    and order: "\<forall>(c, p) \<in> set others. now c \<le> now clk2"
  shows "handle_event deps clk2 (state_after deps st others) event_data =
         (None, state_after deps st others,
          [Log INFO ''SSE event: type=%s, tag=%s, code=%s, source=%s (%s), id=%s, transition=%s'',
           Log DEBUG ''SSE event ignored (duplicate): %s, last seen %.1fs ago''])"
proof -
  have young: "\<forall>(c, p) \<in> set others. now c - t1 < 60"
    using near ret order by fastforce
  have e: "recent_events (state_after deps st others) (event_key deps ev) = Some t1"
    by (rule others_keep_entry[OF others entry young])
  have "now clk2 - last_time (state_after deps st others) (event_key deps ev)
          < dedup_window (state_after deps st others)"
    using near by (simp add: last_time_def e others_keep_window)
  then show ?thesis
    by (rule handle_event_duplicate[OF ex])
qed

lemma repeat_after_others_passes:
  assumes entry: "recent_events st key = Some t1"
    and others: "not_processed_for deps key st others"
    and far: "dedup_window st \<le> now clk2 - t1"
    and epoch: "0 \<le> t1"
  shows "\<not> now clk2 - last_time (state_after deps st others) key
            < dedup_window (state_after deps st others)"
proof -
  have "recent_events (state_after deps st others) key = Some t1 \<or>
        recent_events (state_after deps st others) key = None"
    using others_weaken_entry[OF others] entry by simp
  then show ?thesis
    using far epoch by (auto simp: last_time_def others_keep_window)
qed

subsection \<open>The deduplication window\<close>

text \<open>
  C2, amended. For an extracted event with key \<open>event_key deps ev\<close>: a delivery less
  than the window after the time the cache holds for the key is suppressed before hub
  lookup and dispatch and leaves the whole state, the key's time stamp included, as it
  was. A delivery that is not less than the window after it is processed: it goes on to
  hub lookup and dispatch, records its own arrival time for the key, and keeps of the
  other cache entries those younger than 60 seconds. The time the cache holds is that of
  the last processed delivery of the key: after a processed delivery, followed by any
  deliveries none of which is a processed delivery of the same key (other keys, dropped
  or raising payloads, suppressed duplicates), an identical delivery less than the window
  after the processed one is suppressed and changes nothing, provided none of the
  deliveries in between arrived later than it and the window is at most the 60 seconds
  of retention; and an identical delivery at least the window after the processed one is
  processed in its turn. With no delivery in between this is the pair: of two identical
  deliveries of which the first is processed, the second changes nothing when it arrives
  less than the window after the first, and is processed when it arrives at least the
  window after the first.
\<close>

theorem dedup_window_gate:
  assumes ex: "extract_event deps event_data = Inr (Some ev)"
  shows
    "(now clk - last_time st (event_key deps ev) < dedup_window st \<longrightarrow>
        handle_event deps clk st event_data =
          (None, st,
              [Log INFO ''SSE event: type=%s, tag=%s, code=%s, source=%s (%s), id=%s, transition=%s'',
               Log DEBUG ''SSE event ignored (duplicate): %s, last seen %.1fs ago''])) \<and>
     (\<not> now clk - last_time st (event_key deps ev) < dedup_window st \<longrightarrow>
        state_of (handle_event deps clk st event_data) =
          state_of (lookup_and_dispatch deps clk (remember st (event_key deps ev) (now clk)) ev) \<and>
        (\<forall>k. recent_events (state_of (handle_event deps clk st event_data)) k =
               (if k = event_key deps ev then Some (now clk)
                else (case recent_events st k of
                        Some v \<Rightarrow> if now clk - v < 60 then Some v else None
                      | None \<Rightarrow> None))) \<and>
        (\<forall>clk2::clock. now clk2 - now clk < dedup_window st \<longrightarrow>
           handle_event deps clk2 (state_of (handle_event deps clk st event_data)) event_data =
             (None, state_of (handle_event deps clk st event_data),
              [Log INFO ''SSE event: type=%s, tag=%s, code=%s, source=%s (%s), id=%s, transition=%s'',
               Log DEBUG ''SSE event ignored (duplicate): %s, last seen %.1fs ago''])) \<and>
        (\<forall>clk2::clock. dedup_window st \<le> now clk2 - now clk \<longrightarrow>
           state_of (handle_event deps clk2 (state_of (handle_event deps clk st event_data)) event_data) =
             state_of (lookup_and_dispatch deps clk2
                         (remember (state_of (handle_event deps clk st event_data)) (event_key deps ev) (now clk2)) ev) \<and>
           recent_events (state_of (handle_event deps clk2 (state_of (handle_event deps clk st event_data)) event_data)) (event_key deps ev) =
             Some (now clk2)) \<and>
        (\<forall>others. not_processed_for deps (event_key deps ev) (state_of (handle_event deps clk st event_data)) others \<longrightarrow>
           (\<forall>clk2::clock.
              now clk2 - now clk < dedup_window st \<and> dedup_window st \<le> 60 \<and>
              (\<forall>(c, p) \<in> set others. now c \<le> now clk2) \<longrightarrow>
              handle_event deps clk2 (state_after deps (state_of (handle_event deps clk st event_data)) others) event_data =
                (None, state_after deps (state_of (handle_event deps clk st event_data)) others,
              [Log INFO ''SSE event: type=%s, tag=%s, code=%s, source=%s (%s), id=%s, transition=%s'',
               Log DEBUG ''SSE event ignored (duplicate): %s, last seen %.1fs ago''])) \<and>
           (\<forall>clk2::clock.
              dedup_window st \<le> now clk2 - now clk \<and> 0 \<le> now clk \<longrightarrow>
              state_of (handle_event deps clk2 (state_after deps (state_of (handle_event deps clk st event_data)) others) event_data) =
                state_of (lookup_and_dispatch deps clk2
                            (remember (state_after deps (state_of (handle_event deps clk st event_data)) others) (event_key deps ev) (now clk2)) ev) \<and>
              recent_events (state_of (handle_event deps clk2 (state_after deps (state_of (handle_event deps clk st event_data)) others) event_data)) (event_key deps ev) =
                Some (now clk2))))"
proof -
  let ?key = "event_key deps ev"
  let ?dup = "[Log INFO ''SSE event: type=%s, tag=%s, code=%s, source=%s (%s), id=%s, transition=%s'',
               Log DEBUG ''SSE event ignored (duplicate): %s, last seen %.1fs ago'']"
  let ?st' = "state_of (handle_event deps clk st event_data)"
  have suppressed: "handle_event deps clk st event_data = (None, st, ?dup)"
    if "now clk - last_time st ?key < dedup_window st"
    using that by (rule handle_event_duplicate[OF ex])
  have processed:
    "state_of (handle_event deps clk st event_data) =
       state_of (lookup_and_dispatch deps clk (remember st ?key (now clk)) ev) \<and>
     (\<forall>k. recent_events ?st' k =
            (if k = ?key then Some (now clk)
             else (case recent_events st k of
                     Some v \<Rightarrow> if now clk - v < 60 then Some v else None
                   | None \<Rightarrow> None))) \<and>
     (\<forall>clk2::clock. now clk2 - now clk < dedup_window st \<longrightarrow>
        handle_event deps clk2 ?st' event_data = (None, ?st', ?dup)) \<and>
     (\<forall>clk2::clock. dedup_window st \<le> now clk2 - now clk \<longrightarrow>
        state_of (handle_event deps clk2 ?st' event_data) =
          state_of (lookup_and_dispatch deps clk2 (remember ?st' ?key (now clk2)) ev) \<and>
        recent_events (state_of (handle_event deps clk2 ?st' event_data)) ?key =
          Some (now clk2)) \<and>
     (\<forall>others. not_processed_for deps ?key ?st' others \<longrightarrow>
        (\<forall>clk2::clock.
           now clk2 - now clk < dedup_window st \<and> dedup_window st \<le> 60 \<and>
           (\<forall>(c, p) \<in> set others. now c \<le> now clk2) \<longrightarrow>
           handle_event deps clk2 (state_after deps ?st' others) event_data =
             (None, state_after deps ?st' others, ?dup)) \<and>
        (\<forall>clk2::clock.
           dedup_window st \<le> now clk2 - now clk \<and> 0 \<le> now clk \<longrightarrow>
           state_of (handle_event deps clk2 (state_after deps ?st' others) event_data) =
             state_of (lookup_and_dispatch deps clk2
                         (remember (state_after deps ?st' others) ?key (now clk2)) ev) \<and>
           recent_events
             (state_of (handle_event deps clk2 (state_after deps ?st' others) event_data)) ?key =
             Some (now clk2)))"
    if pass: "\<not> now clk - last_time st ?key < dedup_window st"
  proof (intro conjI allI impI)
    show "state_of (handle_event deps clk st event_data) =
            state_of (lookup_and_dispatch deps clk (remember st ?key (now clk)) ev)"
      by (rule handle_event_passed(1)[OF ex pass])
  next
    fix k
    show "recent_events ?st' k =
            (if k = ?key then Some (now clk)
             else (case recent_events st k of
                     Some v \<Rightarrow> if now clk - v < 60 then Some v else None
                   | None \<Rightarrow> None))"
      by (rule cache_after_processed[OF ex pass])
  next
    fix clk2 :: clock
    assume "now clk2 - now clk < dedup_window st"
    then have "now clk2 - last_time ?st' ?key < dedup_window ?st'"
      by (simp add: handle_event_passed(3,4)[OF ex pass])
    then show "handle_event deps clk2 ?st' event_data = (None, ?st', ?dup)"
      by (rule handle_event_duplicate[OF ex])
  next
    fix clk2 :: clock
    assume "dedup_window st \<le> now clk2 - now clk"
    then have p2: "\<not> now clk2 - last_time ?st' ?key < dedup_window ?st'"
      by (simp add: handle_event_passed(3,4)[OF ex pass])
    show "state_of (handle_event deps clk2 ?st' event_data) =
            state_of (lookup_and_dispatch deps clk2 (remember ?st' ?key (now clk2)) ev)"
      by (rule handle_event_passed(1)[OF ex p2])
  next
    fix clk2 :: clock
    assume "dedup_window st \<le> now clk2 - now clk"
    then have p2: "\<not> now clk2 - last_time ?st' ?key < dedup_window ?st'"
      by (simp add: handle_event_passed(3,4)[OF ex pass])
    show "recent_events (state_of (handle_event deps clk2 ?st' event_data)) ?key = Some (now clk2)"
      by (rule handle_event_passed(2)[OF ex p2])
  next
    fix others and clk2 :: clock
    assume o: "not_processed_for deps ?key ?st' others"
      and h: "now clk2 - now clk < dedup_window st \<and> dedup_window st \<le> 60 \<and>
              (\<forall>(c, p) \<in> set others. now c \<le> now clk2)"
    have e: "recent_events ?st' ?key = Some (now clk)"
      by (rule handle_event_passed(2)[OF ex pass])
    have w: "dedup_window ?st' = dedup_window st"
      by (rule handle_event_passed(4)[OF ex pass])
    show "handle_event deps clk2 (state_after deps ?st' others) event_data =
            (None, state_after deps ?st' others, ?dup)"
      using h by (intro repeat_after_others_suppressed[OF ex e o]) (simp_all add: w)
  next
    fix others and clk2 :: clock
    assume o: "not_processed_for deps ?key ?st' others"
      and h: "dedup_window st \<le> now clk2 - now clk \<and> 0 \<le> now clk"
    have e: "recent_events ?st' ?key = Some (now clk)"
      by (rule handle_event_passed(2)[OF ex pass])
    have w: "dedup_window ?st' = dedup_window st"
      by (rule handle_event_passed(4)[OF ex pass])
    have p2: "\<not> now clk2 - last_time (state_after deps ?st' others) ?key
                < dedup_window (state_after deps ?st' others)"
      using h by (intro repeat_after_others_passes[OF e o]) (simp_all add: w)
    show "state_of (handle_event deps clk2 (state_after deps ?st' others) event_data) =
            state_of (lookup_and_dispatch deps clk2
                        (remember (state_after deps ?st' others) ?key (now clk2)) ev)"
      by (rule handle_event_passed(1)[OF ex p2])
  next
    fix others and clk2 :: clock
    assume o: "not_processed_for deps ?key ?st' others"
      and h: "dedup_window st \<le> now clk2 - now clk \<and> 0 \<le> now clk"
    have e: "recent_events ?st' ?key = Some (now clk)"
      by (rule handle_event_passed(2)[OF ex pass])
    have w: "dedup_window ?st' = dedup_window st"
      by (rule handle_event_passed(4)[OF ex pass])
    have p2: "\<not> now clk2 - last_time (state_after deps ?st' others) ?key
                < dedup_window (state_after deps ?st' others)"
      using h by (intro repeat_after_others_passes[OF e o]) (simp_all add: w)
    show "recent_events
            (state_of (handle_event deps clk2 (state_after deps ?st' others) event_data)) ?key =
            Some (now clk2)"
      by (rule handle_event_passed(2)[OF ex p2])
  qed
  show ?thesis
    using suppressed processed by blast
qed

lemma run_disarm_first:
  assumes "5 \<le> t"
  shows "handle_event ex_deps (ex_clock t stamp) ex_state ex_disarm_payload =
         (None, ex_disarm_state t t,
          [Log INFO ''SSE event: type=%s, tag=%s, code=%s, source=%s (%s), id=%s, transition=%s'',
           Log INFO ''SSE security: tag=%s, old=%s, new=%s, changed=%s'',
           Log INFO ''SSE instant: %s -> %s par %s (state_changed=%s)'',
           Create_notification ''disarmed'' (JStr ''Alice'') ''Home'',
           Set_updated_data])"
proof -
  have k: "event_key ex_deps ex_disarm_event = '':disarm:TRIGGERED''"
    by (simp add: event_key_def ex_disarm_event_def)
  have pass: "\<not> now (ex_clock t stamp) - last_time ex_state (event_key ex_deps ex_disarm_event)
                < dedup_window ex_state"
    using assms by (simp add: last_time_def ex_state_def init_state_def ex_clock_def)
  have sp: "find_space ex_state (ev_hub_id ex_disarm_event) = Some (''S1'', ex_space)"
    by (simp add: find_space_def ex_state_def init_state_def ex_space_def ex_disarm_event_def)
  have r: "remember ex_state '':disarm:TRIGGERED'' t =
           ex_state\<lparr>recent_events := ['':disarm:TRIGGERED'' \<mapsto> t]\<rparr>"
    by (simp add: remember_def prune_def ex_state_def init_state_def fun_eq_iff)
  have d: "dispatch ex_deps (ex_clock t stamp)
             (ex_state\<lparr>recent_events := ['':disarm:TRIGGERED'' \<mapsto> t]\<rparr>) ''S1'' ex_space
             ex_disarm_event =
           (None, ex_disarm_state t t,
            [Log INFO ''SSE security: tag=%s, old=%s, new=%s, changed=%s'',
             Log INFO ''SSE instant: %s -> %s par %s (state_changed=%s)'',
             Create_notification ''disarmed'' (JStr ''Alice'') ''Home'',
             Set_updated_data])"
    by (simp add: dispatch_def ex_deps_sel Let_def handle_security_event_def put_space_def
        ex_space_def ex_disarm_event_def ex_state_def init_state_def ex_disarm_state_def
        ex_clock_def)
  have n: "now (ex_clock t stamp) = t"
    by (simp add: ex_clock_def)
  have pe: "process_event ex_deps (ex_clock t stamp) ex_state ex_disarm_event =
            (None, ex_disarm_state t t,
             [Log INFO ''SSE security: tag=%s, old=%s, new=%s, changed=%s'',
              Log INFO ''SSE instant: %s -> %s par %s (state_changed=%s)'',
              Create_notification ''disarmed'' (JStr ''Alice'') ''Home'',
              Set_updated_data])"
    by (simp only: process_event_dispatch[OF pass sp] k n r d)
  show ?thesis
    by (simp add: handle_event_extracted[OF extract_ex_disarm] pe)
qed

lemma run_disarm_again_processed:
  assumes "5 \<le> t - t0"
  shows "handle_event ex_deps (ex_clock t stamp) (ex_disarm_state t0 m) ex_disarm_payload =
         (None, ex_disarm_state t m,
          [Log INFO ''SSE event: type=%s, tag=%s, code=%s, source=%s (%s), id=%s, transition=%s'',
           Log INFO ''SSE security: tag=%s, old=%s, new=%s, changed=%s'',
           Log INFO ''SSE instant: %s -> %s par %s (state_changed=%s)'',
           Create_notification ''disarmed'' (JStr ''Alice'') ''Home'',
           Set_updated_data])"
proof -
  let ?st = "ex_disarm_state t0 m"
  let ?sp = "\<lparr>hub_id = ''H1'', space_name = ''Home'', security_state = ''disarmed'',
           devices = [(''D1'', ex_device)]\<rparr>"
  have k: "event_key ex_deps ex_disarm_event = '':disarm:TRIGGERED''"
    by (simp add: event_key_def ex_disarm_event_def)
  have pass: "\<not> now (ex_clock t stamp) - last_time ?st (event_key ex_deps ex_disarm_event)
                < dedup_window ?st"
    using assms by (simp add: last_time_def ex_disarm_state_def ex_clock_def k)
  have sp: "find_space ?st (ev_hub_id ex_disarm_event) = Some (''S1'', ?sp)"
    by (simp add: find_space_def ex_disarm_state_def ex_disarm_event_def)
  have r: "remember ?st '':disarm:TRIGGERED'' t =
           ?st\<lparr>recent_events := ['':disarm:TRIGGERED'' \<mapsto> t]\<rparr>"
    by (simp add: remember_def prune_def ex_disarm_state_def fun_eq_iff)
  have d: "dispatch ex_deps (ex_clock t stamp)
             (?st\<lparr>recent_events := ['':disarm:TRIGGERED'' \<mapsto> t]\<rparr>) ''S1'' ?sp
             ex_disarm_event =
           (None, ex_disarm_state t m,
            [Log INFO ''SSE security: tag=%s, old=%s, new=%s, changed=%s'',
             Log INFO ''SSE instant: %s -> %s par %s (state_changed=%s)'',
             Create_notification ''disarmed'' (JStr ''Alice'') ''Home'',
             Set_updated_data])"
    by (simp add: dispatch_def ex_deps_sel Let_def handle_security_event_def put_space_def
        ex_disarm_event_def ex_disarm_state_def ex_clock_def)
  have n: "now (ex_clock t stamp) = t"
    by (simp add: ex_clock_def)
  have pe: "process_event ex_deps (ex_clock t stamp) ?st ex_disarm_event =
            (None, ex_disarm_state t m,
             [Log INFO ''SSE security: tag=%s, old=%s, new=%s, changed=%s'',
              Log INFO ''SSE instant: %s -> %s par %s (state_changed=%s)'',
              Create_notification ''disarmed'' (JStr ''Alice'') ''Home'',
              Set_updated_data])"
    by (simp only: process_event_dispatch[OF pass sp] k n r d)
  show ?thesis
    by (simp add: handle_event_extracted[OF extract_ex_disarm] pe)
qed


text \<open>
  C2, as stated, at two inputs where it fails. First, the door payload delivered at 1000,
  1004 and 1006 seconds: the deliveries at 1004 and 1006 are identical and 2 seconds
  apart; the one at 1004 is suppressed (the state stays as the delivery at 1000 left it)
  and the one at 1006 is processed and writes the device (\<open>door_opened_at\<close> changes),
  because the window is measured from the last processed delivery and a suppressed
  delivery does not renew it. So of these two it is the second, not the first, that
  changes the model. Second, the disarm payload delivered at 1000 and at 1010 seconds:
  the two are 10 seconds apart and both are processed (each creates its notification),
  but the second finds the space disarmed already and changes neither the spaces nor
  the protection record. So of two deliveries more than the window apart, both
  processed, the second need not change the model.
\<close>

theorem dedup_pair_counterexample:
  "handle_event ex_deps (ex_clock 1000 ''T1000'') ex_state ex_door_payload =
     (None, ex_door_state 1000 ''T1000'',
      [Log INFO ''SSE event: type=%s, tag=%s, code=%s, source=%s (%s), id=%s, transition=%s'',
       Log INFO ''SSE instant: %s -> %s'', Set_updated_data]) \<and>
   handle_event ex_deps (ex_clock 1004 ''T1004'') (ex_door_state 1000 ''T1000'') ex_door_payload =
     (None, ex_door_state 1000 ''T1000'',
      [Log INFO ''SSE event: type=%s, tag=%s, code=%s, source=%s (%s), id=%s, transition=%s'',
       Log DEBUG ''SSE event ignored (duplicate): %s, last seen %.1fs ago'']) \<and>
   handle_event ex_deps (ex_clock 1006 ''T1006'') (ex_door_state 1000 ''T1000'') ex_door_payload =
     (None, ex_door_state 1006 ''T1006'',
      [Log INFO ''SSE event: type=%s, tag=%s, code=%s, source=%s (%s), id=%s, transition=%s'',
       Log INFO ''SSE instant: %s -> %s'', Set_updated_data]) \<and>
   now (ex_clock 1006 ''T1006'') - now (ex_clock 1004 ''T1004'')
     < dedup_window (ex_door_state 1000 ''T1000'') \<and>
   device_attr (ex_door_state 1000 ''T1000'') ''S1'' ''D1'' ''door_opened_at'' =
     Some (AStr ''T1000'') \<and>
   device_attr (ex_door_state 1006 ''T1006'') ''S1'' ''D1'' ''door_opened_at'' =
     Some (AStr ''T1006'') \<and>
   handle_event ex_deps (ex_clock 1000 ''T1000'') ex_state ex_disarm_payload =
     (None, ex_disarm_state 1000 1000,
      [Log INFO ''SSE event: type=%s, tag=%s, code=%s, source=%s (%s), id=%s, transition=%s'',
       Log INFO ''SSE security: tag=%s, old=%s, new=%s, changed=%s'',
       Log INFO ''SSE instant: %s -> %s par %s (state_changed=%s)'',
       Create_notification ''disarmed'' (JStr ''Alice'') ''Home'',
       Set_updated_data]) \<and>
   handle_event ex_deps (ex_clock 1010 ''T1010'') (ex_disarm_state 1000 1000) ex_disarm_payload =
     (None, ex_disarm_state 1010 1000,
      [Log INFO ''SSE event: type=%s, tag=%s, code=%s, source=%s (%s), id=%s, transition=%s'',
       Log INFO ''SSE security: tag=%s, old=%s, new=%s, changed=%s'',
       Log INFO ''SSE instant: %s -> %s par %s (state_changed=%s)'',
       Create_notification ''disarmed'' (JStr ''Alice'') ''Home'',
       Set_updated_data]) \<and>
   dedup_window (ex_disarm_state 1000 1000)
     < now (ex_clock 1010 ''T1010'') - now (ex_clock 1000 ''T1000'') \<and>
   spaces (ex_disarm_state 1010 1000) = spaces (ex_disarm_state 1000 1000) \<and>
   last_state_update (ex_disarm_state 1010 1000) = last_state_update (ex_disarm_state 1000 1000)"
proof -
  have a: "handle_event ex_deps (ex_clock 1000 ''T1000'') ex_state ex_door_payload =
     (None, ex_door_state 1000 ''T1000'',
      [Log INFO ''SSE event: type=%s, tag=%s, code=%s, source=%s (%s), id=%s, transition=%s'',
       Log INFO ''SSE instant: %s -> %s'', Set_updated_data])"
    by (rule run_door_first) simp
  have b: "handle_event ex_deps (ex_clock 1004 ''T1004'') (ex_door_state 1000 ''T1000'') ex_door_payload =
     (None, ex_door_state 1000 ''T1000'',
      [Log INFO ''SSE event: type=%s, tag=%s, code=%s, source=%s (%s), id=%s, transition=%s'',
       Log DEBUG ''SSE event ignored (duplicate): %s, last seen %.1fs ago''])"
    by (rule run_door_again_duplicate) simp
  have c: "handle_event ex_deps (ex_clock 1006 ''T1006'') (ex_door_state 1000 ''T1000'') ex_door_payload =
     (None, ex_door_state 1006 ''T1006'',
      [Log INFO ''SSE event: type=%s, tag=%s, code=%s, source=%s (%s), id=%s, transition=%s'',
       Log INFO ''SSE instant: %s -> %s'', Set_updated_data])"
    by (rule run_door_again_processed) simp
  have d: "now (ex_clock 1006 ''T1006'') - now (ex_clock 1004 ''T1004'')
     < dedup_window (ex_door_state 1000 ''T1000'')"
    by (simp add: ex_clock_def ex_door_state_def)
  have e: "device_attr (ex_door_state 1000 ''T1000'') ''S1'' ''D1'' ''door_opened_at'' =
     Some (AStr ''T1000'')"
    by (simp add: device_attr_def ex_door_state_def)
  have f: "device_attr (ex_door_state 1006 ''T1006'') ''S1'' ''D1'' ''door_opened_at'' =
     Some (AStr ''T1006'')"
    by (simp add: device_attr_def ex_door_state_def)
  have g: "handle_event ex_deps (ex_clock 1000 ''T1000'') ex_state ex_disarm_payload =
     (None, ex_disarm_state 1000 1000,
      [Log INFO ''SSE event: type=%s, tag=%s, code=%s, source=%s (%s), id=%s, transition=%s'',
       Log INFO ''SSE security: tag=%s, old=%s, new=%s, changed=%s'',
       Log INFO ''SSE instant: %s -> %s par %s (state_changed=%s)'',
       Create_notification ''disarmed'' (JStr ''Alice'') ''Home'',
       Set_updated_data])"
    by (rule run_disarm_first) simp
  have h: "handle_event ex_deps (ex_clock 1010 ''T1010'') (ex_disarm_state 1000 1000)
             ex_disarm_payload =
     (None, ex_disarm_state 1010 1000,
      [Log INFO ''SSE event: type=%s, tag=%s, code=%s, source=%s (%s), id=%s, transition=%s'',
       Log INFO ''SSE security: tag=%s, old=%s, new=%s, changed=%s'',
       Log INFO ''SSE instant: %s -> %s par %s (state_changed=%s)'',
       Create_notification ''disarmed'' (JStr ''Alice'') ''Home'',
       Set_updated_data])"
    by (rule run_disarm_again_processed) simp
  have i: "dedup_window (ex_disarm_state 1000 1000)
     < now (ex_clock 1010 ''T1010'') - now (ex_clock 1000 ''T1000'')"
    by (simp add: ex_clock_def ex_disarm_state_def)
  have j: "spaces (ex_disarm_state 1010 1000) = spaces (ex_disarm_state 1000 1000)"
    by (simp add: ex_disarm_state_def)
  have l: "last_state_update (ex_disarm_state 1010 1000) =
           last_state_update (ex_disarm_state 1000 1000)"
    by (simp add: ex_disarm_state_def)
  show ?thesis
    using a b c d e f g h i j l by blast
qed

theorem dedup_window_gate_witness:
  "extract_event ex_deps ex_door_payload = Inr (Some ex_door_event) \<and>
   now (ex_clock 1004 ''T1004'')
       - last_time (ex_door_state 1000 ''T1000'') (event_key ex_deps ex_door_event)
     < dedup_window (ex_door_state 1000 ''T1000'') \<and>
   handle_event ex_deps (ex_clock 1004 ''T1004'') (ex_door_state 1000 ''T1000'') ex_door_payload =
     (None, ex_door_state 1000 ''T1000'',
      [Log INFO ''SSE event: type=%s, tag=%s, code=%s, source=%s (%s), id=%s, transition=%s'',
       Log DEBUG ''SSE event ignored (duplicate): %s, last seen %.1fs ago'']) \<and>
   \<not> now (ex_clock 1000 ''T1000'') - last_time ex_state (event_key ex_deps ex_door_event)
       < dedup_window ex_state \<and>
   recent_events (state_of (handle_event ex_deps (ex_clock 1000 ''T1000'') ex_state ex_door_payload))
     (event_key ex_deps ex_door_event) = Some (now (ex_clock 1000 ''T1000'')) \<and>
   not_processed_for ex_deps (event_key ex_deps ex_door_event)
     (state_of (handle_event ex_deps (ex_clock 1000 ''T1000'') ex_state ex_door_payload))
     [(ex_clock 1001 ''T1001'', ex_disarm_payload)] \<and>
   now (ex_clock 1003 ''T1003'') - now (ex_clock 1000 ''T1000'') < dedup_window ex_state \<and>
   dedup_window ex_state \<le> 60 \<and>
   now (ex_clock 1001 ''T1001'') \<le> now (ex_clock 1003 ''T1003'') \<and>
   handle_event ex_deps (ex_clock 1003 ''T1003'')
       (state_after ex_deps
          (state_of (handle_event ex_deps (ex_clock 1000 ''T1000'') ex_state ex_door_payload))
          [(ex_clock 1001 ''T1001'', ex_disarm_payload)])
       ex_door_payload =
     (None,
      state_after ex_deps
        (state_of (handle_event ex_deps (ex_clock 1000 ''T1000'') ex_state ex_door_payload))
        [(ex_clock 1001 ''T1001'', ex_disarm_payload)],
      [Log INFO ''SSE event: type=%s, tag=%s, code=%s, source=%s (%s), id=%s, transition=%s'',
       Log DEBUG ''SSE event ignored (duplicate): %s, last seen %.1fs ago'']) \<and>
   dedup_window ex_state \<le> now (ex_clock 1007 ''T1007'') - now (ex_clock 1000 ''T1000'') \<and>
   0 \<le> now (ex_clock 1000 ''T1000'') \<and>
   recent_events
     (state_of (handle_event ex_deps (ex_clock 1007 ''T1007'')
        (state_after ex_deps
           (state_of (handle_event ex_deps (ex_clock 1000 ''T1000'') ex_state ex_door_payload))
           [(ex_clock 1001 ''T1001'', ex_disarm_payload)])
        ex_door_payload))
     (event_key ex_deps ex_door_event) = Some (now (ex_clock 1007 ''T1007''))"
proof -
  let ?first = "state_of (handle_event ex_deps (ex_clock 1000 ''T1000'') ex_state ex_door_payload)"
  let ?others = "[(ex_clock 1001 ''T1001'', ex_disarm_payload)]"
  have k: "event_key ex_deps ex_door_event = ''D1:dooropened:TRIGGERED''"
    by (simp add: event_key_def ex_door_event_def)
  have k': "event_key ex_deps ex_disarm_event = '':disarm:TRIGGERED''"
    by (simp add: event_key_def ex_disarm_event_def)
  have h1: "now (ex_clock 1004 ''T1004'')
       - last_time (ex_door_state 1000 ''T1000'') (event_key ex_deps ex_door_event)
     < dedup_window (ex_door_state 1000 ''T1000'')"
    by (simp add: k ex_clock_def last_time_def ex_door_state_def)
  have c1: "handle_event ex_deps (ex_clock 1004 ''T1004'') (ex_door_state 1000 ''T1000'')
              ex_door_payload =
     (None, ex_door_state 1000 ''T1000'',
      [Log INFO ''SSE event: type=%s, tag=%s, code=%s, source=%s (%s), id=%s, transition=%s'',
       Log DEBUG ''SSE event ignored (duplicate): %s, last seen %.1fs ago''])"
    by (rule dedup_window_gate[OF extract_ex_door, where clk = "ex_clock 1004 ''T1004''"
            and st = "ex_door_state 1000 ''T1000''", THEN conjunct1, THEN mp, OF h1])
  have h2: "\<not> now (ex_clock 1000 ''T1000'') - last_time ex_state (event_key ex_deps ex_door_event)
       < dedup_window ex_state"
    by (simp add: k ex_clock_def last_time_def ex_state_def init_state_def)
  note g = dedup_window_gate[OF extract_ex_door, where clk = "ex_clock 1000 ''T1000''"
            and st = ex_state, THEN conjunct2, THEN mp, OF h2]
  have c2: "recent_events ?first (event_key ex_deps ex_door_event) =
            Some (now (ex_clock 1000 ''T1000''))"
    using g[THEN conjunct2, THEN conjunct1, THEN spec, of "event_key ex_deps ex_door_event"]
    by simp
  have o: "not_processed_for ex_deps (event_key ex_deps ex_door_event) ?first ?others"
    by (simp add: extract_ex_disarm k k')
  note tr = g[THEN conjunct2, THEN conjunct2, THEN conjunct2, THEN conjunct2, THEN spec,
              of ?others, THEN mp, OF o]
  have h3: "now (ex_clock 1003 ''T1003'') - now (ex_clock 1000 ''T1000'') < dedup_window ex_state"
    by (simp add: ex_clock_def ex_state_def init_state_def)
  have h3': "dedup_window ex_state \<le> 60"
    by (simp add: ex_state_def init_state_def)
  have h3'': "\<forall>(c, p) \<in> set ?others. now c \<le> now (ex_clock 1003 ''T1003'')"
    by (simp add: ex_clock_def)
  have c3: "handle_event ex_deps (ex_clock 1003 ''T1003'') (state_after ex_deps ?first ?others)
              ex_door_payload =
     (None, state_after ex_deps ?first ?others,
      [Log INFO ''SSE event: type=%s, tag=%s, code=%s, source=%s (%s), id=%s, transition=%s'',
       Log DEBUG ''SSE event ignored (duplicate): %s, last seen %.1fs ago''])"
    using tr[THEN conjunct1, THEN spec, of "ex_clock 1003 ''T1003''"] h3 h3' h3''
    by blast
  have h4: "dedup_window ex_state \<le> now (ex_clock 1007 ''T1007'') - now (ex_clock 1000 ''T1000'')"
    by (simp add: ex_clock_def ex_state_def init_state_def)
  have h4': "0 \<le> now (ex_clock 1000 ''T1000'')"
    by (simp add: ex_clock_def)
  have c4: "recent_events
     (state_of (handle_event ex_deps (ex_clock 1007 ''T1007'')
        (state_after ex_deps ?first ?others) ex_door_payload))
     (event_key ex_deps ex_door_event) = Some (now (ex_clock 1007 ''T1007''))"
    using tr[THEN conjunct2, THEN spec, of "ex_clock 1007 ''T1007''"] h4 h4'
    by blast
  have h5: "now (ex_clock 1001 ''T1001'') \<le> now (ex_clock 1003 ''T1003'')"
    by (simp add: ex_clock_def)
  show ?thesis
    using extract_ex_door h1 c1 h2 c2 o h3 h3' h5 c3 h4 h4' c4 by blast
qed

subsection \<open>Events that are dropped after the duplicate check\<close>

lemma put_same:
  "distinct (map fst xs) \<Longrightarrow> (k, v) \<in> set xs \<Longrightarrow>
   map (\<lambda>(k', s). if k' = k then (k', v) else (k', s)) xs = xs"
proof (induction xs)
  case Nil
  then show ?case by simp
next
  case (Cons a xs)
  obtain k' s where a: "a = (k', s)" by (cases a)
  show ?case
  proof (cases "k' = k")
    case True
    then have "(k, v) \<notin> set xs"
      using Cons.prems(1) a by (auto simp: image_iff)
    then have v: "s = v"
      using Cons.prems(2) a True by auto
    have "\<forall>x \<in> set xs. fst x \<noteq> k"
      using Cons.prems(1) a True by auto
    then have "map (\<lambda>(k', s). if k' = k then (k', v) else (k', s)) xs = xs"
      by (induction xs) auto
    then show ?thesis
      using a True v by simp
  next
    case False
    then show ?thesis
      using Cons a by auto
  qed
qed

lemma find_space_in_spaces:
  "find_space st hub = Some (sk, space) \<Longrightarrow> (sk, space) \<in> set (spaces st)"
  by (auto simp: find_space_def dest: find_in_set)

lemma put_space_same:
  assumes "distinct (map fst (spaces st))" and "find_space st hub = Some (sk, space)"
  shows "put_space st sk space = st"
  using put_same[OF assms(1) find_space_in_spaces[OF assms(2)]]
  by (simp add: put_space_def)

lemma dispatch_unhandled:
  assumes "unhandled_tag deps (ev_tag ev)"
  shows "dispatch deps clk st sk space ev =
         (None, st,
          [Log WARNING ''SSE event not handled: tag=%s, type=%s, source=%s (id=%s)'',
           Set_updated_data])"
  using assms by (simp add: dispatch_def unhandled_tag_def Let_def)

lemma handlers_unresolved:
  assumes "find_device space n i = Inr None"
  shows "map_of (DOOR_EVENTS deps) tag \<noteq> None \<Longrightarrow>
         state_of (after_handler st sk (handle_door_event deps clk space tag n i tr)) = put_space st sk space"
    and "map_of (MOTION_EVENTS deps) tag \<noteq> None \<Longrightarrow>
         state_of (after_handler st sk (handle_motion_event deps clk space tag n i)) = put_space st sk space"
    and "map_of (SMOKE_EVENTS deps) tag \<noteq> None \<Longrightarrow>
         state_of (after_handler st sk (handle_smoke_event deps space tag n i)) = put_space st sk space"
    and "map_of (FLOOD_EVENTS deps) tag \<noteq> None \<Longrightarrow>
         state_of (after_handler st sk (handle_flood_event deps space tag n i)) = put_space st sk space"
    and "map_of (GLASS_EVENTS deps) tag \<noteq> None \<Longrightarrow>
         state_of (after_handler st sk (handle_glass_event deps space tag n i)) = put_space st sk space"
    and "map_of (TAMPER_EVENTS deps) tag \<noteq> None \<Longrightarrow>
         state_of (after_handler st sk (handle_tamper_event deps space tag n i tr)) = put_space st sk space"
    and "map_of (DEVICE_STATUS_EVENTS deps) tag \<noteq> None \<Longrightarrow>
         state_of (after_handler st sk (handle_device_status_event deps space tag n i)) = put_space st sk space"
    and "map_of (RELAY_EVENTS deps) tag \<noteq> None \<Longrightarrow>
         state_of (after_handler st sk (handle_relay_event deps space tag n i)) = put_space st sk space"
  using assms
  by (auto simp: after_handler_def state_of_def
      handle_door_event_def handle_motion_event_def handle_smoke_event_def handle_flood_event_def handle_glass_event_def handle_tamper_event_def handle_device_status_event_def handle_relay_event_def)

lemma handlers_raise:
  assumes "find_device space n i = Inl e"
  shows "map_of (DOOR_EVENTS deps) tag \<noteq> None \<Longrightarrow>
         after_handler st sk (handle_door_event deps clk space tag n i tr) = (Some e, st, [])"
    and "map_of (MOTION_EVENTS deps) tag \<noteq> None \<Longrightarrow>
         after_handler st sk (handle_motion_event deps clk space tag n i) = (Some e, st, [])"
    and "map_of (SMOKE_EVENTS deps) tag \<noteq> None \<Longrightarrow>
         after_handler st sk (handle_smoke_event deps space tag n i) = (Some e, st, [])"
    and "map_of (FLOOD_EVENTS deps) tag \<noteq> None \<Longrightarrow>
         after_handler st sk (handle_flood_event deps space tag n i) = (Some e, st, [])"
    and "map_of (GLASS_EVENTS deps) tag \<noteq> None \<Longrightarrow>
         after_handler st sk (handle_glass_event deps space tag n i) = (Some e, st, [])"
    and "map_of (TAMPER_EVENTS deps) tag \<noteq> None \<Longrightarrow>
         after_handler st sk (handle_tamper_event deps space tag n i tr) = (Some e, st, [])"
    and "map_of (DEVICE_STATUS_EVENTS deps) tag \<noteq> None \<Longrightarrow>
         after_handler st sk (handle_device_status_event deps space tag n i) = (Some e, st, [])"
    and "map_of (RELAY_EVENTS deps) tag \<noteq> None \<Longrightarrow>
         after_handler st sk (handle_relay_event deps space tag n i) = (Some e, st, [])"
  using assms
  by (auto simp: after_handler_def
      handle_door_event_def handle_motion_event_def handle_smoke_event_def handle_flood_event_def handle_glass_event_def handle_tamper_event_def handle_device_status_event_def handle_relay_event_def)

lemma dispatch_unresolved:
  assumes "device_category deps (ev_tag ev)"
    and "find_device space (ev_source_name ev) (ev_source_id ev) = Inr None"
  shows "state_of (dispatch deps clk st sk space ev) = put_space st sk space"
  using assms(1)
  by (simp add: dispatch_def device_category_def Let_def handlers_unresolved[OF assms(2)]) blast

lemma dispatch_find_device_raises:
  assumes "device_category deps (ev_tag ev)"
    and "find_device space (ev_source_name ev) (ev_source_id ev) = Inl e"
  shows "dispatch deps clk st sk space ev = (Some e, st, [])"
  using assms(1)
  by (simp add: dispatch_def device_category_def Let_def handlers_raise[OF assms(2)]) blast


text \<open>
  C10. The arrival time is recorded and the cache cleaned up before hub lookup and
  dispatch. So a delivery that passes the duplicate check and is then dropped (its hub is
  unknown, or its tag is in no table, or its tag is in a device table and the device is
  not resolved, or resolving it raises) leaves exactly the state it met with the cache
  updated: its arrival time recorded under its key, every other cache entry kept if it
  is younger than 60 seconds and removed otherwise, and the spaces and the protection
  record unchanged. An identical delivery less than the window later is suppressed, also
  after deliveries in between none of which is a processed delivery of the same key,
  provided none of them arrived later than it and the window is at most the 60 seconds
  of retention. The keys of the spaces mapping are distinct, as the keys of a dict are.
\<close>

theorem dropped_delivery_arms_dedup:
  assumes ex: "extract_event deps event_data = Inr (Some ev)"
    and pass: "\<not> now clk - last_time st (event_key deps ev) < dedup_window st"
    and keys: "distinct (map fst (spaces st))"
    and dropped:
      "find_space st (ev_hub_id ev) = None \<or>
       (\<exists>sk space. find_space st (ev_hub_id ev) = Some (sk, space) \<and>
          (unhandled_tag deps (ev_tag ev) \<or>
           (device_category deps (ev_tag ev) \<and>
            (find_device space (ev_source_name ev) (ev_source_id ev) = Inr None \<or>
             (\<exists>e. find_device space (ev_source_name ev) (ev_source_id ev) = Inl e)))))"
  shows "state_of (handle_event deps clk st event_data) =
           st\<lparr>recent_events :=
                 (\<lambda>k. if k = event_key deps ev then Some (now clk)
                      else (case recent_events st k of
                              Some v \<Rightarrow> if now clk - v < 60 then Some v else None
                            | None \<Rightarrow> None))\<rparr> \<and>
         spaces (state_of (handle_event deps clk st event_data)) = spaces st \<and>
         last_state_update (state_of (handle_event deps clk st event_data)) =
           last_state_update st \<and>
         recent_events (state_of (handle_event deps clk st event_data)) (event_key deps ev) =
           Some (now clk) \<and>
         (\<forall>clk2::clock. now clk2 - now clk < dedup_window st \<longrightarrow>
            handle_event deps clk2 (state_of (handle_event deps clk st event_data)) event_data =
              (None, state_of (handle_event deps clk st event_data),
               [Log INFO ''SSE event: type=%s, tag=%s, code=%s, source=%s (%s), id=%s, transition=%s'',
                Log DEBUG ''SSE event ignored (duplicate): %s, last seen %.1fs ago''])) \<and>
         (\<forall>others. \<forall>clk2::clock.
            not_processed_for deps (event_key deps ev)
              (state_of (handle_event deps clk st event_data)) others \<and>
            now clk2 - now clk < dedup_window st \<and> dedup_window st \<le> 60 \<and>
            (\<forall>(c, p) \<in> set others. now c \<le> now clk2) \<longrightarrow>
            handle_event deps clk2
                (state_after deps (state_of (handle_event deps clk st event_data)) others)
                event_data =
              (None, state_after deps (state_of (handle_event deps clk st event_data)) others,
               [Log INFO ''SSE event: type=%s, tag=%s, code=%s, source=%s (%s), id=%s, transition=%s'',
                Log DEBUG ''SSE event ignored (duplicate): %s, last seen %.1fs ago'']))"
proof -
  let ?st1 = "remember st (event_key deps ev) (now clk)"
  let ?st' = "state_of (handle_event deps clk st event_data)"
  have st': "?st' = state_of (lookup_and_dispatch deps clk ?st1 ev)"
    by (rule handle_event_passed(1)[OF ex pass])
  have fs: "find_space ?st1 (ev_hub_id ev) = find_space st (ev_hub_id ev)"
    by (rule find_space_remember)
  have same: "state_of (lookup_and_dispatch deps clk ?st1 ev) = ?st1"
    using dropped
  proof (elim disjE exE conjE)
    assume "find_space st (ev_hub_id ev) = None"
    then show ?thesis
      by (simp add: lookup_and_dispatch_def fs state_of_def)
  next
    fix sk space
    assume "find_space st (ev_hub_id ev) = Some (sk, space)" "unhandled_tag deps (ev_tag ev)"
    then show ?thesis
      by (simp add: lookup_and_dispatch_def fs dispatch_unhandled state_of_def)
  next
    fix sk space
    assume sp: "find_space st (ev_hub_id ev) = Some (sk, space)"
      and cat: "device_category deps (ev_tag ev)"
      and nf: "find_device space (ev_source_name ev) (ev_source_id ev) = Inr None"
    have k1: "distinct (map fst (spaces ?st1))"
      using keys by (simp add: remember_fields)
    have "put_space ?st1 sk space = ?st1"
      using k1 sp fs by (metis put_space_same)
    then show ?thesis
      using sp by (simp add: lookup_and_dispatch_def fs dispatch_unresolved[OF cat nf])
  next
    fix sk space e
    assume sp: "find_space st (ev_hub_id ev) = Some (sk, space)"
      and cat: "device_category deps (ev_tag ev)"
      and r: "find_device space (ev_source_name ev) (ev_source_id ev) = Inl e"
    show ?thesis
      using sp
      by (simp add: lookup_and_dispatch_def fs dispatch_find_device_raises[OF cat r] state_of_def)
  qed
  have a: "spaces ?st' = spaces st"
    unfolding st' same by (simp add: remember_fields)
  have b: "last_state_update ?st' = last_state_update st"
    unfolding st' same by (simp add: remember_fields)
  have c: "recent_events ?st' (event_key deps ev) = Some (now clk)"
    by (rule handle_event_passed(2)[OF ex pass])
  have d: "\<forall>clk2::clock. now clk2 - now clk < dedup_window st \<longrightarrow>
            handle_event deps clk2 ?st' event_data =
              (None, ?st',
               [Log INFO ''SSE event: type=%s, tag=%s, code=%s, source=%s (%s), id=%s, transition=%s'',
                Log DEBUG ''SSE event ignored (duplicate): %s, last seen %.1fs ago''])"
  proof (intro allI impI)
    fix clk2 :: clock
    assume "now clk2 - now clk < dedup_window st"
    then have "now clk2 - last_time ?st' (event_key deps ev) < dedup_window ?st'"
      by (simp add: handle_event_passed(3,4)[OF ex pass])
    then show "handle_event deps clk2 ?st' event_data =
              (None, ?st',
               [Log INFO ''SSE event: type=%s, tag=%s, code=%s, source=%s (%s), id=%s, transition=%s'',
                Log DEBUG ''SSE event ignored (duplicate): %s, last seen %.1fs ago''])"
      by (rule handle_event_duplicate[OF ex])
  qed
  have r: "?st1 =
           st\<lparr>recent_events :=
                 (\<lambda>k. if k = event_key deps ev then Some (now clk)
                      else (case recent_events st k of
                              Some v \<Rightarrow> if now clk - v < 60 then Some v else None
                            | None \<Rightarrow> None))\<rparr>"
  proof -
    have "prune (now clk) ((recent_events st)(event_key deps ev \<mapsto> now clk)) =
          (\<lambda>k. if k = event_key deps ev then Some (now clk)
               else (case recent_events st k of
                       Some v \<Rightarrow> if now clk - v < 60 then Some v else None
                     | None \<Rightarrow> None))"
      by (rule ext) (rule prune_apply)
    then show ?thesis
      by (simp add: remember_def)
  qed
  have z: "?st' =
           st\<lparr>recent_events :=
                 (\<lambda>k. if k = event_key deps ev then Some (now clk)
                      else (case recent_events st k of
                              Some v \<Rightarrow> if now clk - v < 60 then Some v else None
                            | None \<Rightarrow> None))\<rparr>"
    using st' same r by simp
  have w: "dedup_window ?st' = dedup_window st"
    by (rule handle_event_passed(4)[OF ex pass])
  have e: "\<forall>others. \<forall>clk2::clock.
            not_processed_for deps (event_key deps ev) ?st' others \<and>
            now clk2 - now clk < dedup_window st \<and> dedup_window st \<le> 60 \<and>
            (\<forall>(c, p) \<in> set others. now c \<le> now clk2) \<longrightarrow>
            handle_event deps clk2 (state_after deps ?st' others) event_data =
              (None, state_after deps ?st' others,
               [Log INFO ''SSE event: type=%s, tag=%s, code=%s, source=%s (%s), id=%s, transition=%s'',
                Log DEBUG ''SSE event ignored (duplicate): %s, last seen %.1fs ago''])"
  proof (intro allI impI)
    fix others and clk2 :: clock
    assume h: "not_processed_for deps (event_key deps ev) ?st' others \<and>
            now clk2 - now clk < dedup_window st \<and> dedup_window st \<le> 60 \<and>
            (\<forall>(c, p) \<in> set others. now c \<le> now clk2)"
    then have o: "not_processed_for deps (event_key deps ev) ?st' others"
      by simp
    show "handle_event deps clk2 (state_after deps ?st' others) event_data =
              (None, state_after deps ?st' others,
               [Log INFO ''SSE event: type=%s, tag=%s, code=%s, source=%s (%s), id=%s, transition=%s'',
                Log DEBUG ''SSE event ignored (duplicate): %s, last seen %.1fs ago''])"
      using h by (intro repeat_after_others_suppressed[OF ex c o]) (simp_all add: w)
  qed
  show ?thesis
    using z a b c d e by blast
qed

lemma extract_ex_unknown_device:
  "extract_event ex_deps ex_unknown_device_payload = Inr (Some ex_unknown_device_event)"
  by (simp add: extract_event_def ex_unknown_device_payload_def ex_unknown_device_event_def
      dict_get_def lower_def lower_char_def py_or_def ex_deps_sel ex_parse_event_code_def Let_def)

lemma ex_door_category: "device_category ex_deps ''dooropened''"
  by (simp add: device_category_def ex_deps_sel)

theorem dropped_delivery_arms_dedup_witness:
  "extract_event ex_deps ex_unknown_device_payload = Inr (Some ex_unknown_device_event) \<and>
   \<not> now (ex_clock 1000 ''T1000'') - last_time ex_state (event_key ex_deps ex_unknown_device_event)
       < dedup_window ex_state \<and>
   distinct (map fst (spaces ex_state)) \<and>
   find_space ex_state (ev_hub_id ex_unknown_device_event) = Some (''S1'', ex_space) \<and>
   device_category ex_deps (ev_tag ex_unknown_device_event) \<and>
   find_device ex_space (ev_source_name ex_unknown_device_event)
     (ev_source_id ex_unknown_device_event) = Inr None \<and>
   state_of (handle_event ex_deps (ex_clock 1000 ''T1000'') ex_state ex_unknown_device_payload) =
     ex_state\<lparr>recent_events := [''D9:dooropened:TRIGGERED'' \<mapsto> 1000]\<rparr> \<and>
   now (ex_clock 1002 ''T1002'') - now (ex_clock 1000 ''T1000'') < dedup_window ex_state \<and>
   handle_event ex_deps (ex_clock 1002 ''T1002'')
       (state_of (handle_event ex_deps (ex_clock 1000 ''T1000'') ex_state
                    ex_unknown_device_payload))
       ex_unknown_device_payload =
     (None,
      state_of (handle_event ex_deps (ex_clock 1000 ''T1000'') ex_state ex_unknown_device_payload),
      [Log INFO ''SSE event: type=%s, tag=%s, code=%s, source=%s (%s), id=%s, transition=%s'',
       Log DEBUG ''SSE event ignored (duplicate): %s, last seen %.1fs ago'']) \<and>
   not_processed_for ex_deps (event_key ex_deps ex_unknown_device_event)
     (state_of (handle_event ex_deps (ex_clock 1000 ''T1000'') ex_state
                  ex_unknown_device_payload))
     [(ex_clock 1001 ''T1001'', ex_disarm_payload)] \<and>
   dedup_window ex_state \<le> 60 \<and>
   now (ex_clock 1001 ''T1001'') \<le> now (ex_clock 1002 ''T1002'') \<and>
   handle_event ex_deps (ex_clock 1002 ''T1002'')
       (state_after ex_deps
          (state_of (handle_event ex_deps (ex_clock 1000 ''T1000'') ex_state
                       ex_unknown_device_payload))
          [(ex_clock 1001 ''T1001'', ex_disarm_payload)])
       ex_unknown_device_payload =
     (None,
      state_after ex_deps
        (state_of (handle_event ex_deps (ex_clock 1000 ''T1000'') ex_state
                     ex_unknown_device_payload))
        [(ex_clock 1001 ''T1001'', ex_disarm_payload)],
      [Log INFO ''SSE event: type=%s, tag=%s, code=%s, source=%s (%s), id=%s, transition=%s'',
       Log DEBUG ''SSE event ignored (duplicate): %s, last seen %.1fs ago''])"
proof -
  let ?st' = "state_of (handle_event ex_deps (ex_clock 1000 ''T1000'') ex_state
                          ex_unknown_device_payload)"
  let ?others = "[(ex_clock 1001 ''T1001'', ex_disarm_payload)]"
  have k: "event_key ex_deps ex_unknown_device_event = ''D9:dooropened:TRIGGERED''"
    by (simp add: event_key_def ex_unknown_device_event_def)
  have k': "event_key ex_deps ex_disarm_event = '':disarm:TRIGGERED''"
    by (simp add: event_key_def ex_disarm_event_def)
  have p: "\<not> now (ex_clock 1000 ''T1000'')
              - last_time ex_state (event_key ex_deps ex_unknown_device_event)
            < dedup_window ex_state"
    by (simp add: ex_clock_def last_time_def ex_state_def init_state_def)
  have ks: "distinct (map fst (spaces ex_state))"
    by (simp add: ex_state_def init_state_def)
  have s: "find_space ex_state (ev_hub_id ex_unknown_device_event) = Some (''S1'', ex_space)"
    by (simp add: find_space_def ex_state_def init_state_def ex_space_def
        ex_unknown_device_event_def)
  have c: "device_category ex_deps (ev_tag ex_unknown_device_event)"
    by (simp add: ex_unknown_device_event_def ex_door_category)
  have f: "find_device ex_space (ev_source_name ex_unknown_device_event)
             (ev_source_id ex_unknown_device_event) = Inr None"
    by (simp add: find_device_def ex_space_def ex_unknown_device_event_def)
  have n: "now (ex_clock 1002 ''T1002'') - now (ex_clock 1000 ''T1000'') < dedup_window ex_state"
    by (simp add: ex_clock_def ex_state_def init_state_def)
  have d: "find_space ex_state (ev_hub_id ex_unknown_device_event) = None \<or>
       (\<exists>sk space. find_space ex_state (ev_hub_id ex_unknown_device_event) = Some (sk, space) \<and>
          (unhandled_tag ex_deps (ev_tag ex_unknown_device_event) \<or>
           (device_category ex_deps (ev_tag ex_unknown_device_event) \<and>
            (find_device space (ev_source_name ex_unknown_device_event)
               (ev_source_id ex_unknown_device_event) = Inr None \<or>
             (\<exists>e. find_device space (ev_source_name ex_unknown_device_event)
                     (ev_source_id ex_unknown_device_event) = Inl e)))))"
    using s c f by blast
  note t = dropped_delivery_arms_dedup[OF extract_ex_unknown_device p ks d]
  have z: "?st' = ex_state\<lparr>recent_events := [''D9:dooropened:TRIGGERED'' \<mapsto> 1000]\<rparr>"
    unfolding t[THEN conjunct1]
    by (simp add: k ex_clock_def ex_state_def init_state_def fun_eq_iff)
  have r: "handle_event ex_deps (ex_clock 1002 ''T1002'') ?st' ex_unknown_device_payload =
     (None, ?st',
      [Log INFO ''SSE event: type=%s, tag=%s, code=%s, source=%s (%s), id=%s, transition=%s'',
       Log DEBUG ''SSE event ignored (duplicate): %s, last seen %.1fs ago''])"
    using t[THEN conjunct2, THEN conjunct2, THEN conjunct2, THEN conjunct2, THEN conjunct1,
            THEN spec, of "ex_clock 1002 ''T1002''"] n
    by blast
  have o: "not_processed_for ex_deps (event_key ex_deps ex_unknown_device_event) ?st' ?others"
    by (simp add: extract_ex_disarm k k')
  have w: "dedup_window ex_state \<le> 60"
    by (simp add: ex_state_def init_state_def)
  have m: "\<forall>(c, p) \<in> set ?others. now c \<le> now (ex_clock 1002 ''T1002'')"
    by (simp add: ex_clock_def)
  have r2: "handle_event ex_deps (ex_clock 1002 ''T1002'') (state_after ex_deps ?st' ?others)
              ex_unknown_device_payload =
     (None, state_after ex_deps ?st' ?others,
      [Log INFO ''SSE event: type=%s, tag=%s, code=%s, source=%s (%s), id=%s, transition=%s'',
       Log DEBUG ''SSE event ignored (duplicate): %s, last seen %.1fs ago''])"
    using t[THEN conjunct2, THEN conjunct2, THEN conjunct2, THEN conjunct2, THEN conjunct2,
            THEN spec, of ?others, THEN spec, of "ex_clock 1002 ''T1002''"] o n w m
    by blast
  have m': "now (ex_clock 1001 ''T1001'') \<le> now (ex_clock 1002 ''T1002'')"
    by (simp add: ex_clock_def)
  show ?thesis
    using extract_ex_unknown_device p ks s c f z n r o w m' r2 by blast
qed

subsection \<open>Which handlers mark the hub as protected\<close>

lemma put_space_lookup:
  assumes "find_space st hub = Some (sk, space)"
  shows "map_of (spaces (put_space (st\<lparr>last_state_update := l\<rparr>) sk sp')) sk = Some sp'"
proof -
  have "sk \<in> fst ` set (spaces st)"
    using find_space_in_spaces[OF assms] by force
  then show ?thesis
    by (simp add: put_space_def put_lookup)
qed

text \<open>
  C1, amended. The protection time stamp of a hub is written by the security handler, and
  by it alone. When a processed security event changes the space's security state (its
  tag is not a group tag and maps to a state other than the current one), the hub's time
  stamp is set to the clock reading taken after the write, and from then on the hub
  reports protected exactly while less than 5 seconds have passed since that reading. An
  event whose tag is not in the security table, whatever its handler writes to a device,
  leaves the protection record as it was.
\<close>

theorem protection_marked_by_security_handler:
  assumes ex: "extract_event deps event_data = Inr (Some ev)"
  shows
    "(\<not> now clk - last_time st (event_key deps ev) < dedup_window st \<and>
      find_space st (ev_hub_id ev) = Some (sk, space) \<and>
      map_of (EVENT_TAG_TO_STATE deps) (ev_tag ev) = Some new_state \<and>
      security_state space \<noteq> new_state \<and>
      ev_tag ev \<noteq> ''grouparm'' \<and> ev_tag ev \<noteq> ''groupdisarm'' \<longrightarrow>
        map_of (spaces (state_of (handle_event deps clk st event_data))) sk =
          Some (space\<lparr>security_state := new_state\<rparr>) \<and>
        last_state_update (state_of (handle_event deps clk st event_data)) (hub_id space) =
          Some (now_mark clk) \<and>
        (\<forall>t. is_state_protected (state_of (handle_event deps clk st event_data)) (hub_id space) t
               = (t - now_mark clk < 5))) \<and>
     (map_of (EVENT_TAG_TO_STATE deps) (ev_tag ev) = None \<longrightarrow>
        last_state_update (state_of (handle_event deps clk st event_data)) = last_state_update st)"
proof (intro conjI impI)
  let ?st1 = "remember st (event_key deps ev) (now clk)"
  let ?st' = "state_of (handle_event deps clk st event_data)"
  assume h: "\<not> now clk - last_time st (event_key deps ev) < dedup_window st \<and>
      find_space st (ev_hub_id ev) = Some (sk, space) \<and>
      map_of (EVENT_TAG_TO_STATE deps) (ev_tag ev) = Some new_state \<and>
      security_state space \<noteq> new_state \<and>
      ev_tag ev \<noteq> ''grouparm'' \<and> ev_tag ev \<noteq> ''groupdisarm''"
  then have pass: "\<not> now clk - last_time st (event_key deps ev) < dedup_window st"
    and sp: "find_space st (ev_hub_id ev) = Some (sk, space)"
    and tag: "map_of (EVENT_TAG_TO_STATE deps) (ev_tag ev) = Some new_state"
    and ch: "security_state space \<noteq> new_state"
    and ng: "ev_tag ev \<noteq> ''grouparm''" "ev_tag ev \<noteq> ''groupdisarm''"
    by simp_all
  have sp1: "find_space ?st1 (ev_hub_id ev) = Some (sk, space)"
    using sp by (simp add: find_space_remember)
  have st': "?st' =
             put_space (?st1\<lparr>last_state_update :=
                               (last_state_update ?st1)(hub_id space \<mapsto> now_mark clk)\<rparr>) sk
               (space\<lparr>security_state := new_state\<rparr>)"
    unfolding handle_event_state[OF ex] process_event_dispatch[OF pass sp]
      dispatch_security[OF tag] handle_security_event_result[OF tag]
    using ch ng by (simp add: state_of_def)
  show m: "map_of (spaces ?st') sk = Some (space\<lparr>security_state := new_state\<rparr>)"
    unfolding st' by (rule put_space_lookup[OF sp1])
  show l: "last_state_update ?st' (hub_id space) = Some (now_mark clk)"
    unfolding st' by (simp add: put_space_def)
  show "\<forall>t. is_state_protected ?st' (hub_id space) t = (t - now_mark clk < 5)"
    by (simp add: is_state_protected_def l)
next
  let ?st' = "state_of (handle_event deps clk st event_data)"
  assume none: "map_of (EVENT_TAG_TO_STATE deps) (ev_tag ev) = None"
  show "last_state_update ?st' = last_state_update st"
  proof (cases "now clk - last_time st (event_key deps ev) < dedup_window st")
    case True
    then show ?thesis
      by (simp add: handle_event_duplicate[OF ex True] state_of_def)
  next
    case False
    show ?thesis
      unfolding handle_event_passed(1)[OF ex False]
      by (simp add: state_of_def lookup_and_dispatch_keeps_protection[OF none] remember_fields)
  qed
qed

text \<open>
  C1, as stated, at an input where it fails: a door event on a resolved device. The door
  handler writes \<open>door_opened\<close> on the device; the hub's protection time stamp is not
  set, and one second later the hub reports unprotected.
\<close>

theorem door_event_not_marked_counterexample:
  "handle_event ex_deps (ex_clock 1000 ''T1000'') ex_state ex_door_payload =
     (None, ex_door_state 1000 ''T1000'',
      [Log INFO ''SSE event: type=%s, tag=%s, code=%s, source=%s (%s), id=%s, transition=%s'',
       Log INFO ''SSE instant: %s -> %s'', Set_updated_data]) \<and>
   device_attr ex_state ''S1'' ''D1'' ''door_opened'' = None \<and>
   device_attr (ex_door_state 1000 ''T1000'') ''S1'' ''D1'' ''door_opened'' = Some (ABool True) \<and>
   last_state_update (ex_door_state 1000 ''T1000'') ''H1'' = None \<and>
   \<not> is_state_protected (ex_door_state 1000 ''T1000'') ''H1'' 1001"
proof -
  have a: "handle_event ex_deps (ex_clock 1000 ''T1000'') ex_state ex_door_payload =
     (None, ex_door_state 1000 ''T1000'',
      [Log INFO ''SSE event: type=%s, tag=%s, code=%s, source=%s (%s), id=%s, transition=%s'',
       Log INFO ''SSE instant: %s -> %s'', Set_updated_data])"
    by (rule run_door_first) simp
  have b: "device_attr ex_state ''S1'' ''D1'' ''door_opened'' = None"
    by (simp add: device_attr_def ex_state_def init_state_def ex_space_def ex_device_def)
  have c: "device_attr (ex_door_state 1000 ''T1000'') ''S1'' ''D1'' ''door_opened'' =
           Some (ABool True)"
    by (simp add: device_attr_def ex_door_state_def)
  have d: "last_state_update (ex_door_state 1000 ''T1000'') ''H1'' = None"
    by (simp add: ex_door_state_def)
  have e: "\<not> is_state_protected (ex_door_state 1000 ''T1000'') ''H1'' 1001"
    by (simp add: is_state_protected_def ex_door_state_def)
  show ?thesis
    using a b c d e by blast
qed

theorem protection_marked_by_security_handler_witness:
  "extract_event ex_deps ex_disarm_payload = Inr (Some ex_disarm_event) \<and>
   \<not> now (ex_clock 1000 ''T1000'') - last_time ex_state (event_key ex_deps ex_disarm_event)
       < dedup_window ex_state \<and>
   find_space ex_state (ev_hub_id ex_disarm_event) = Some (''S1'', ex_space) \<and>
   map_of (EVENT_TAG_TO_STATE ex_deps) (ev_tag ex_disarm_event) = Some ''disarmed'' \<and>
   security_state ex_space \<noteq> ''disarmed'' \<and>
   map_of (spaces (state_of (handle_event ex_deps (ex_clock 1000 ''T1000'') ex_state
                               ex_disarm_payload))) ''S1'' =
     Some (ex_space\<lparr>security_state := ''disarmed''\<rparr>) \<and>
   is_state_protected
     (state_of (handle_event ex_deps (ex_clock 1000 ''T1000'') ex_state ex_disarm_payload))
     ''H1'' 1004 \<and>
   \<not> is_state_protected
     (state_of (handle_event ex_deps (ex_clock 1000 ''T1000'') ex_state ex_disarm_payload))
     ''H1'' 1005 \<and>
   extract_event ex_deps ex_door_payload = Inr (Some ex_door_event) \<and>
   map_of (EVENT_TAG_TO_STATE ex_deps) (ev_tag ex_door_event) = None \<and>
   last_state_update
     (state_of (handle_event ex_deps (ex_clock 1000 ''T1000'') ex_state ex_door_payload)) =
     last_state_update ex_state"
proof -
  let ?st' = "state_of (handle_event ex_deps (ex_clock 1000 ''T1000'') ex_state ex_disarm_payload)"
  have p: "\<not> now (ex_clock 1000 ''T1000'') - last_time ex_state (event_key ex_deps ex_disarm_event)
              < dedup_window ex_state"
    by (simp add: ex_clock_def last_time_def ex_state_def init_state_def)
  have s: "find_space ex_state (ev_hub_id ex_disarm_event) = Some (''S1'', ex_space)"
    by (simp add: find_space_def ex_state_def init_state_def ex_space_def ex_disarm_event_def)
  have t: "map_of (EVENT_TAG_TO_STATE ex_deps) (ev_tag ex_disarm_event) = Some ''disarmed''"
    by (simp add: ex_deps_sel ex_disarm_event_def)
  have c: "security_state ex_space \<noteq> ''disarmed''"
    by (simp add: ex_space_def)
  have g: "ev_tag ex_disarm_event \<noteq> ''grouparm'' \<and> ev_tag ex_disarm_event \<noteq> ''groupdisarm''"
    by (simp add: ex_disarm_event_def)
  have h: "hub_id ex_space = ''H1''"
    by (simp add: ex_space_def)
  have m: "now_mark (ex_clock 1000 ''T1000'') = 1000"
    by (simp add: ex_clock_def)
  note inst = protection_marked_by_security_handler[OF extract_ex_disarm,
      where clk = "ex_clock 1000 ''T1000''" and st = ex_state and sk = "''S1''"
        and space = ex_space and new_state = "''disarmed''"]
  have r: "map_of (spaces ?st') ''S1'' = Some (ex_space\<lparr>security_state := ''disarmed''\<rparr>) \<and>
           (\<forall>t. is_state_protected ?st' ''H1'' t = (t - 1000 < 5))"
    using inst p s t c g unfolding h m by blast
  have r1: "is_state_protected ?st' ''H1'' 1004"
    using r by simp
  have r2: "\<not> is_state_protected ?st' ''H1'' 1005"
    using r by simp
  have n: "map_of (EVENT_TAG_TO_STATE ex_deps) (ev_tag ex_door_event) = None"
    by (simp add: ex_deps_sel ex_door_event_def)
  have u: "last_state_update
     (state_of (handle_event ex_deps (ex_clock 1000 ''T1000'') ex_state ex_door_payload)) =
     last_state_update ex_state"
    using protection_marked_by_security_handler[OF extract_ex_door,
      where clk = "ex_clock 1000 ''T1000''" and st = ex_state] n
    by blast
  show ?thesis
    using extract_ex_disarm p s t c r r1 r2 extract_ex_door n u by blast
qed

end
